theory Spec2Isabelle
  imports Main
begin

text \<open>
  A model of the Angular front end: the notification queue, the error interceptor, the
  HTTP client wrapper and the feature components, with the properties of their retry,
  timeout, validation and bounded-list behaviour. Component and service state is passed
  explicitly; what a method leaves to the clock, to a random number or to the server is
  a parameter.
\<close>

section \<open>JavaScript helpers\<close>

text \<open>
  \<open>String.prototype.startsWith\<close> for a search string that is a literal: the first
  \<open>length p\<close> code units of \<open>s\<close> are \<open>p\<close>.
\<close>

definition startsWith :: "string \<Rightarrow> string \<Rightarrow> bool" where
  "startsWith s p = (take (length p) s = p)"

text \<open>
  \<open>a || b\<close> where \<open>a\<close> is a string or \<open>undefined\<close> (\<open>None\<close>): the empty string and
  \<open>undefined\<close> are falsy, so \<open>b\<close> is the value; every other string is the value itself.
\<close>

definition or_else :: "string option \<Rightarrow> string \<Rightarrow> string" where
  "or_else a b = (case a of None \<Rightarrow> b | Some s \<Rightarrow> if s = [] then b else s)"

text \<open>
  \<open>xs.splice(start, 1)\<close> for an integer \<open>start\<close>: a negative start counts from the end
  (not below 0), a start beyond the end is the end, and at most one element is removed.
\<close>

definition splice1 :: "int \<Rightarrow> 'a list \<Rightarrow> 'a list" where
  "splice1 start xs =
     (let n = int (length xs);
          s = nat (if start < 0 then max (n + start) 0 else min start n)
      in take s xs @ drop (Suc s) xs)"

text \<open>
  \<open>xs[i]\<close> for an integer \<open>i\<close>: \<open>undefined\<close> (\<open>None\<close>) outside \<open>0 .. length - 1\<close>.
\<close>

definition js_index :: "'a list \<Rightarrow> int \<Rightarrow> 'a option" where
  "js_index xs i = (if 0 \<le> i \<and> i < int (length xs) then Some (xs ! nat i) else None)"

datatype js_error = TypeError

section \<open>NotificationService (in core/services/ats.service.ts)\<close>

datatype notification_type = Success | Error | Warning | Info

record notification =
  notif_id :: string
  notif_type :: notification_type
  notif_message :: string
  notif_duration :: nat

text \<open>
  The service holds the current value of \<open>notifications$\<close>. The timers started by
  \<open>setTimeout\<close> are kept as pairs of a delay in milliseconds and the identifier that
  the callback will remove.
\<close>

record notification_service =
  notifications :: "notification list"
  timers :: "(nat \<times> string) list"

definition NotificationService_init :: notification_service where
  "NotificationService_init = \<lparr>notifications = [], timers = []\<rparr>"

text \<open>
  \<open>show(type, message, duration)\<close>. The identifier comes from \<open>generateId()\<close>, which
  reads the clock and a random number; it is a parameter here.
\<close>

definition NotificationService_show ::
  "string \<Rightarrow> notification_type \<Rightarrow> string \<Rightarrow> nat \<Rightarrow> notification_service \<Rightarrow> notification_service" where
  "NotificationService_show new_id ty msg dur svc =
     (let notification = \<lparr>notif_id = new_id, notif_type = ty, notif_message = msg,
                            notif_duration = dur\<rparr>;
          current = notifications svc;
          svc1 = svc\<lparr>notifications := current @ [notification]\<rparr>
      in if dur > 0 then svc1\<lparr>timers := timers svc1 @ [(dur, new_id)]\<rparr> else svc1)"

definition NotificationService_success :: "string \<Rightarrow> string \<Rightarrow> notification_service \<Rightarrow> notification_service" where
  "NotificationService_success new_id msg = NotificationService_show new_id Success msg 5000"

definition NotificationService_error :: "string \<Rightarrow> string \<Rightarrow> notification_service \<Rightarrow> notification_service" where
  "NotificationService_error new_id msg = NotificationService_show new_id Error msg 7000"

definition NotificationService_warning :: "string \<Rightarrow> string \<Rightarrow> notification_service \<Rightarrow> notification_service" where
  "NotificationService_warning new_id msg = NotificationService_show new_id Warning msg 5000"

definition NotificationService_info :: "string \<Rightarrow> string \<Rightarrow> notification_service \<Rightarrow> notification_service" where
  "NotificationService_info new_id msg = NotificationService_show new_id Info msg 5000"

definition NotificationService_remove :: "string \<Rightarrow> notification_service \<Rightarrow> notification_service" where
  "NotificationService_remove rid svc =
     (let current = notifications svc
      in svc\<lparr>notifications := filter (\<lambda>n. notif_id n \<noteq> rid) current\<rparr>)"

section \<open>ImageService.getImageUrl (core/services/image.service.ts)\<close>

definition getImageUrl :: "string \<Rightarrow> string" where
  "getImageUrl imageSource =
     (if imageSource \<noteq> [] \<and>
         (startsWith imageSource ''http://'' \<or> startsWith imageSource ''https://'')
      then imageSource
      else ''http://localhost:8000/images/'' @ imageSource)"

section \<open>ImageGenerationComponent (in resume-form/resume-form.component.ts)\<close>

text \<open>
  The fields of \<open>ImageGenerationResponse\<close> that the component reads or writes; the
  optional \<open>prompt\<close> and \<open>style\<close> are \<open>None\<close> when absent.
\<close>

record image_response =
  image_url :: string
  enhanced_prompt :: string
  resp_message :: string
  resp_prompt :: "string option"
  resp_style :: "string option"

record image_component =
  prompt :: string
  selectedStyle :: string
  img_loading :: bool
  img_error :: string
  generatedImage :: "image_response option"
  history :: "image_response list"

definition ImageGenerationComponent_init :: image_component where
  "ImageGenerationComponent_init =
     \<lparr>prompt = [], selectedStyle = ''realistic'', img_loading = False, img_error = [],
      generatedImage = None, history = []\<rparr>"

text \<open>
  The \<open>next\<close> callback of \<open>generateImage\<close>. \<open>generatedImage\<close> and the new head of the
  history are the same object, so both carry the overwritten prompt and style.
  \<open>unshift\<close> puts the response in front; \<open>pop\<close> drops the last element.
\<close>

definition generateImage_next :: "image_response \<Rightarrow> image_component \<Rightarrow> image_component" where
  "generateImage_next response c =
     (let response1 = response\<lparr>resp_prompt := Some (prompt c),
                                 resp_style := Some (selectedStyle c)\<rparr>;
          unshifted = response1 # history c;
          history1 = (if length unshifted > 12 then butlast unshifted else unshifted)
      in c\<lparr>generatedImage := Some response1, history := history1, img_loading := False\<rparr>)"

text \<open>
  The \<open>error\<close> callback: \<open>err.message || 'Generation failed. Please try again.'\<close>.
\<close>

definition generateImage_error :: "string option \<Rightarrow> image_component \<Rightarrow> image_component" where
  "generateImage_error err_message c =
     c\<lparr>img_error := or_else err_message ''Generation failed. Please try again.'',
       img_loading := False\<rparr>"

text \<open>The history after a run of successful responses, the first of the list first.\<close>

fun receive_all :: "image_response list \<Rightarrow> image_component \<Rightarrow> image_component" where
  "receive_all [] c = c"
| "receive_all (r # rs) c = receive_all rs (generateImage_next r c)"

section \<open>AtsAnalyzerComponent (in shared/animations/route-animations.ts)\<close>

record ats_request =
  resume_text :: string
  ats_job_description :: string

record 'r ats_component =
  resumeText :: string
  jobDescription :: string
  ats_loading :: bool
  ats_error :: string
  ats_result :: "'r option"

text \<open>
  \<open>analyzeResume()\<close> up to the subscription: the new component state and the requests
  handed to \<open>AtsService.analyzeResume\<close>, which posts each to \<open>/ats/analyze\<close>.
\<close>

definition analyzeResume :: "'r ats_component \<Rightarrow> 'r ats_component \<times> ats_request list" where
  "analyzeResume c =
     (if resumeText c = [] \<or> jobDescription c = []
      then (c\<lparr>ats_error := ''Please fill both fields''\<rparr>, [])
      else (c\<lparr>ats_loading := True, ats_error := []\<rparr>,
            [\<lparr>resume_text = resumeText c, ats_job_description = jobDescription c\<rparr>]))"

text \<open>The \<open>next\<close> and \<open>error\<close> callbacks of the subscription in \<open>analyzeResume()\<close>.\<close>

definition analyzeResume_next :: "'r \<Rightarrow> 'r ats_component \<Rightarrow> 'r ats_component" where
  "analyzeResume_next response c = c\<lparr>ats_result := Some response, ats_loading := False\<rparr>"

definition analyzeResume_error :: "string option \<Rightarrow> 'r ats_component \<Rightarrow> 'r ats_component" where
  "analyzeResume_error err_message c =
     c\<lparr>ats_error := or_else err_message ''Analysis failed. Please try again.'',
       ats_loading := False\<rparr>"

section \<open>Resume data and its list operations\<close>

record experience =
  title :: string
  company :: string
  exp_duration :: string
  responsibilities :: "string list"

record education =
  degree :: string
  institution :: string
  year :: string
  gpa :: string

record resume_request =
  name :: string
  email :: string
  phone :: string
  target_role :: string
  skills :: "string list"
  experience :: "experience list"
  education :: "education list"
  job_description :: string

definition blank_experience :: experience where
  "blank_experience = \<lparr>title = [], company = [], exp_duration = [], responsibilities = [[]]\<rparr>"

definition blank_education :: education where
  "blank_education = \<lparr>degree = [], institution = [], year = [], gpa = []\<rparr>"

subsection \<open>ResumeGeneratorComponent (in shared/animations/route-animations.ts)\<close>

text \<open>The initial value of the component's \<open>resumeData\<close> field.\<close>

definition ResumeGeneratorComponent_resumeData :: resume_request where
  "ResumeGeneratorComponent_resumeData =
     \<lparr>name = [], email = [], phone = [], target_role = [], skills = [],
      experience = [blank_experience], education = [blank_education], job_description = []\<rparr>"

text \<open>
  Each method takes \<open>resumeData\<close> and returns the updated value, or the \<open>TypeError\<close>
  that reading \<open>.responsibilities\<close> of \<open>undefined\<close> raises when \<open>expIndex\<close> is not an
  index of the experience list; the data is then as it was.
\<close>

definition gen_addExperience :: "resume_request \<Rightarrow> resume_request" where
  "gen_addExperience d = d\<lparr>experience := experience d @ [blank_experience]\<rparr>"

definition gen_removeExperience :: "int \<Rightarrow> resume_request \<Rightarrow> resume_request" where
  "gen_removeExperience index d =
     (if length (experience d) > 1 then d\<lparr>experience := splice1 index (experience d)\<rparr> else d)"

definition gen_addResponsibility :: "int \<Rightarrow> resume_request \<Rightarrow> js_error + resume_request" where
  "gen_addResponsibility expIndex d =
     (case js_index (experience d) expIndex of
        None \<Rightarrow> Inl TypeError
      | Some e \<Rightarrow> Inr (d\<lparr>experience := (experience d)
            [nat expIndex := e\<lparr>responsibilities := responsibilities e @ [[]]\<rparr>]\<rparr>))"

definition gen_removeResponsibility :: "int \<Rightarrow> int \<Rightarrow> resume_request \<Rightarrow> js_error + resume_request" where
  "gen_removeResponsibility expIndex respIndex d =
     (case js_index (experience d) expIndex of
        None \<Rightarrow> Inl TypeError
      | Some e \<Rightarrow>
          if length (responsibilities e) > 1
          then Inr (d\<lparr>experience := (experience d)
            [nat expIndex := e\<lparr>responsibilities := splice1 respIndex (responsibilities e)\<rparr>]\<rparr>)
          else Inr d)"

definition gen_addEducation :: "resume_request \<Rightarrow> resume_request" where
  "gen_addEducation d = d\<lparr>education := education d @ [blank_education]\<rparr>"

definition gen_removeEducation :: "int \<Rightarrow> resume_request \<Rightarrow> resume_request" where
  "gen_removeEducation index d =
     (if length (education d) > 1 then d\<lparr>education := splice1 index (education d)\<rparr> else d)"

subsection \<open>ResumeFormComponent (resume-form/resume-form.component.ts)\<close>

text \<open>
  The form works on the \<open>resumeData\<close> it is given as an input. Each method returns the
  updated data together with the values sent through \<open>dataChange\<close> by \<open>emitChange()\<close>.
\<close>

definition emitChange :: "resume_request \<Rightarrow> resume_request \<times> resume_request list" where
  "emitChange d = (d, [d])"

definition form_addExperience :: "resume_request \<Rightarrow> resume_request \<times> resume_request list" where
  "form_addExperience d = emitChange (d\<lparr>experience := experience d @ [blank_experience]\<rparr>)"

definition form_removeExperience :: "int \<Rightarrow> resume_request \<Rightarrow> resume_request \<times> resume_request list" where
  "form_removeExperience index d =
     (if length (experience d) > 1
      then emitChange (d\<lparr>experience := splice1 index (experience d)\<rparr>)
      else (d, []))"

definition form_addResponsibility ::
  "int \<Rightarrow> resume_request \<Rightarrow> js_error + resume_request \<times> resume_request list" where
  "form_addResponsibility expIndex d =
     (case js_index (experience d) expIndex of
        None \<Rightarrow> Inl TypeError
      | Some e \<Rightarrow> Inr (emitChange (d\<lparr>experience := (experience d)
            [nat expIndex := e\<lparr>responsibilities := responsibilities e @ [[]]\<rparr>]\<rparr>)))"

definition form_removeResponsibility ::
  "int \<Rightarrow> int \<Rightarrow> resume_request \<Rightarrow> js_error + resume_request \<times> resume_request list" where
  "form_removeResponsibility expIndex respIndex d =
     (case js_index (experience d) expIndex of
        None \<Rightarrow> Inl TypeError
      | Some e \<Rightarrow>
          (let responsibilities0 = responsibilities e
           in if length responsibilities0 > 1
              then Inr (emitChange (d\<lparr>experience := (experience d)
                [nat expIndex := e\<lparr>responsibilities := splice1 respIndex responsibilities0\<rparr>]\<rparr>))
              else Inr (d, [])))"

definition form_addEducation :: "resume_request \<Rightarrow> resume_request \<times> resume_request list" where
  "form_addEducation d = emitChange (d\<lparr>education := education d @ [blank_education]\<rparr>)"

definition form_removeEducation :: "int \<Rightarrow> resume_request \<Rightarrow> resume_request \<times> resume_request list" where
  "form_removeEducation index d =
     (if length (education d) > 1
      then emitChange (d\<lparr>education := splice1 index (education d)\<rparr>)
      else (d, []))"

subsection \<open>The lists hold at least one entry\<close>

definition lists_nonempty :: "resume_request \<Rightarrow> bool" where
  "lists_nonempty d =
     (experience d \<noteq> [] \<and> education d \<noteq> [] \<and>
      list_all (\<lambda>e. responsibilities e \<noteq> []) (experience d))"

text \<open>
  The calls a user can make on the list controls of either component, and a run of
  them. A call that raises leaves the data as it was.
\<close>

datatype list_call =
    AddExperience
  | RemoveExperience int
  | AddResponsibility int
  | RemoveResponsibility int int
  | AddEducation
  | RemoveEducation int

fun gen_call :: "list_call \<Rightarrow> resume_request \<Rightarrow> resume_request" where
  "gen_call AddExperience d = gen_addExperience d"
| "gen_call (RemoveExperience i) d = gen_removeExperience i d"
| "gen_call (AddResponsibility i) d =
     (case gen_addResponsibility i d of Inl _ \<Rightarrow> d | Inr d1 \<Rightarrow> d1)"
| "gen_call (RemoveResponsibility i j) d =
     (case gen_removeResponsibility i j d of Inl _ \<Rightarrow> d | Inr d1 \<Rightarrow> d1)"
| "gen_call AddEducation d = gen_addEducation d"
| "gen_call (RemoveEducation i) d = gen_removeEducation i d"

fun form_call :: "list_call \<Rightarrow> resume_request \<Rightarrow> resume_request" where
  "form_call AddExperience d = fst (form_addExperience d)"
| "form_call (RemoveExperience i) d = fst (form_removeExperience i d)"
| "form_call (AddResponsibility i) d =
     (case form_addResponsibility i d of Inl _ \<Rightarrow> d | Inr p \<Rightarrow> fst p)"
| "form_call (RemoveResponsibility i j) d =
     (case form_removeResponsibility i j d of Inl _ \<Rightarrow> d | Inr p \<Rightarrow> fst p)"
| "form_call AddEducation d = fst (form_addEducation d)"
| "form_call (RemoveEducation i) d = fst (form_removeEducation i d)"

section \<open>HTTP requests, errors and the backend\<close>

datatype http_method = GET | POST | PUT | DELETE

record 'b http_request =
  req_method :: http_method
  req_url :: string
  req_headers :: "(string \<times> string) list"
  req_body :: "'b option"

text \<open>
  The \<open>error\<close> field of an error: an \<open>ErrorEvent\<close> with its message, or the body the
  server sent, of which the code reads \<open>detail\<close> only (\<open>None\<close> when the body is
  missing or has no \<open>detail\<close>). The detail is a string here, as the messages built
  from it are.
\<close>

datatype error_body = ErrorEvent string | ServerBody "string option"

record http_error_response =
  status :: nat
  err_body :: error_body
  err_text :: string

text \<open>
  What reaches an error callback: an \<open>HttpErrorResponse\<close>, a plain \<open>Error\<close> with its
  message, or the \<open>TimeoutError\<close> of the \<open>timeout\<close> operator, whose message is fixed.
\<close>

datatype thrown = HttpFailure http_error_response | JsError string | TimeoutError

text \<open>
  \<open>error.error instanceof ErrorEvent\<close> with the event's message, \<open>error.error?.detail\<close>
  and \<open>error.message\<close>; a plain \<open>Error\<close> and a \<open>TimeoutError\<close> have no \<open>error\<close> field.
\<close>

fun body_detail :: "error_body \<Rightarrow> string option" where
  "body_detail (ErrorEvent _) = None"
| "body_detail (ServerBody d) = d"

fun thrown_error_event :: "thrown \<Rightarrow> string option" where
  "thrown_error_event (HttpFailure e) =
     (case err_body e of ErrorEvent m \<Rightarrow> Some m | ServerBody _ \<Rightarrow> None)"
| "thrown_error_event (JsError _) = None"
| "thrown_error_event TimeoutError = None"

fun thrown_detail :: "thrown \<Rightarrow> string option" where
  "thrown_detail (HttpFailure e) = body_detail (err_body e)"
| "thrown_detail (JsError _) = None"
| "thrown_detail TimeoutError = None"

fun thrown_message :: "thrown \<Rightarrow> string option" where
  "thrown_message (HttpFailure e) = Some (err_text e)"
| "thrown_message (JsError m) = Some m"
| "thrown_message TimeoutError = Some ''Timeout has occurred''"

text \<open>
  One subscription to the backend handler, \<open>next.handle(request)\<close>: whether it emits the
  \<open>HttpSentEvent\<close> when the request goes out (Angular's backends do), how it ends
  (the response followed by completion, an error, or nothing at all), and the
  milliseconds from the subscription to that end.
\<close>

datatype 'r reply = Responds 'r | Fails http_error_response | NoReply

record 'r attempt =
  announces :: bool
  reply :: "'r reply"
  elapsed :: nat

text \<open>
  How an observable ends for its subscriber: a value and completion, or an error, each
  with the time since the subscription; or neither for as long as the subscriber stays.
\<close>

datatype ('r, 'e) fin = Done nat 'r | Failed nat 'e | Unfinished

section \<open>The operators of the pipes\<close>

text \<open>
  \<open>retry({count, delay, resetOnSuccess})\<close>. The operator keeps a counter \<open>soFar\<close>. A
  value from the source sets it to 0 when \<open>resetOnSuccess\<close> is set. On an error it
  compares \<open>soFar++ < count\<close>: if so it waits \<open>delay\<close> milliseconds and subscribes to
  the source again, otherwise it passes the error on. The source is given by what its
  \<open>k\<close>-th subscription does; \<open>t\<close> is the time since the operator was subscribed to,
  \<open>ws\<close> the delays waited so far. The subscriber may leave at a deadline \<open>dl\<close>;
  nothing happens after that. The first argument bounds the number of subscriptions:
  \<open>None\<close> means that more are needed.
\<close>

record retry_config =
  retry_count :: nat
  retry_delay :: nat
  resetOnSuccess :: bool

record ('r, 'e) run =
  attempts :: nat
  waits :: "nat list"
  outcome :: "('r, 'e) fin"

definition past :: "nat option \<Rightarrow> nat \<Rightarrow> bool" where
  "past dl t = (case dl of None \<Rightarrow> False | Some d \<Rightarrow> d \<le> t)"

fun retry_loop ::
  "nat \<Rightarrow> nat option \<Rightarrow> retry_config \<Rightarrow> (nat \<Rightarrow> 'r attempt) \<Rightarrow> nat \<Rightarrow> nat \<Rightarrow> nat \<Rightarrow> nat list
     \<Rightarrow> ('r, http_error_response) run option" where
  "retry_loop 0 dl cfg src soFar k t ws = None"
| "retry_loop (Suc fuel) dl cfg src soFar k t ws =
     (let a = src k;
          t1 = t + elapsed a;
          soFar1 = (if resetOnSuccess cfg \<and> announces a then 0 else soFar)
      in if past dl t1 then Some \<lparr>attempts = Suc k, waits = ws, outcome = Unfinished\<rparr>
         else case reply a of
           NoReply \<Rightarrow> Some \<lparr>attempts = Suc k, waits = ws, outcome = Unfinished\<rparr>
         | Responds r \<Rightarrow> Some \<lparr>attempts = Suc k, waits = ws, outcome = Done t1 r\<rparr>
         | Fails e \<Rightarrow>
             if soFar1 < retry_count cfg
             then if past dl (t1 + retry_delay cfg)
                  then Some \<lparr>attempts = Suc k, waits = ws, outcome = Unfinished\<rparr>
                  else retry_loop fuel dl cfg src (Suc soFar1) (Suc k)
                         (t1 + retry_delay cfg) (ws @ [retry_delay cfg])
             else Some \<lparr>attempts = Suc k, waits = ws, outcome = Failed t1 e\<rparr>)"

definition rx_retry ::
  "nat \<Rightarrow> nat option \<Rightarrow> retry_config \<Rightarrow> (nat \<Rightarrow> 'r attempt) \<Rightarrow> ('r, http_error_response) run option" where
  "rx_retry fuel dl cfg src = retry_loop fuel dl cfg src 0 0 0 []"

text \<open>
  \<open>timeout(ms)\<close>: a source that has ended before \<open>ms\<close> milliseconds passes; otherwise
  the operator leaves the source and raises \<open>TimeoutError\<close> at \<open>ms\<close>.
\<close>

definition rx_timeout :: "nat \<Rightarrow> ('r, thrown) fin \<Rightarrow> ('r, thrown) fin" where
  "rx_timeout ms inner =
     (case inner of
        Done t r \<Rightarrow> if t < ms then Done t r else Failed ms TimeoutError
      | Failed t e \<Rightarrow> if t < ms then Failed t e else Failed ms TimeoutError
      | Unfinished \<Rightarrow> Failed ms TimeoutError)"

text \<open>
  \<open>catchError(h)\<close> where \<open>h\<close> returns \<open>throwError(() => new Error(message))\<close>: an error
  is replaced by an \<open>Error\<close> with the message that \<open>h\<close> computes.
\<close>

definition rx_catchError :: "('e \<Rightarrow> string) \<Rightarrow> ('r, 'e) fin \<Rightarrow> ('r, thrown) fin" where
  "rx_catchError h inner =
     (case inner of
        Done t r \<Rightarrow> Done t r
      | Failed t e \<Rightarrow> Failed t (JsError (h e))
      | Unfinished \<Rightarrow> Unfinished)"

section \<open>HttpErrorInterceptor (in core/interceptors/loading.interceptor.ts)\<close>

text \<open>The decimal digits of a number, as a template literal prints it.\<close>

fun decimal :: "nat \<Rightarrow> string" where
  "decimal n =
     (if n < 10 then [char_of (48 + n)]
      else decimal (n div 10) @ [char_of (48 + n mod 10)])"

definition getServerErrorMessage :: "http_error_response \<Rightarrow> string" where
  "getServerErrorMessage error =
     (if status error = 0 then ''Cannot connect to server. Please check your internet connection.''
      else if status error = 400
        then or_else (body_detail (err_body error)) ''Invalid request. Please check your input.''
      else if status error = 401 then ''Unauthorized. Please log in.''
      else if status error = 403 then ''Access forbidden.''
      else if status error = 404 then ''Resource not found.''
      else if status error = 408 then ''Request timeout. Please try again.''
      else if status error = 500
        then or_else (body_detail (err_body error)) ''Server error. Please try again later.''
      else if status error = 503 then ''Service temporarily unavailable.''
      else or_else (body_detail (err_body error)) (''Server error: '' @ decimal (status error)))"

text \<open>
  The callback of \<open>catchError\<close> in \<open>intercept\<close>: the message, and the notification
  service after \<open>notificationService.error(errorMessage)\<close>. The callback then logs to
  the console and throws \<open>new Error(errorMessage)\<close>.
\<close>

definition intercept_errorMessage :: "http_error_response \<Rightarrow> string" where
  "intercept_errorMessage error =
     (case err_body error of
        ErrorEvent m \<Rightarrow> ''Client Error: '' @ m
      | ServerBody _ \<Rightarrow> getServerErrorMessage error)"

definition intercept_catchError ::
  "string \<Rightarrow> http_error_response \<Rightarrow> notification_service \<Rightarrow> string \<times> notification_service" where
  "intercept_catchError new_id error svc =
     (let errorMessage = intercept_errorMessage error
      in (errorMessage, NotificationService_error new_id errorMessage svc))"

text \<open>
  \<open>intercept(request, next)\<close>: the pipe of \<open>retry\<close> and \<open>catchError\<close> over the handler
  \<open>next.handle(request)\<close>; \<open>next request k\<close> is what the \<open>k\<close>-th subscription to it does.
  The result has the number of subscriptions to the handler, the delays waited between
  them, the end seen by the subscriber and the notification service afterwards.
\<close>

record 'r intercepted =
  handled :: "('r, thrown) run"
  service :: notification_service

definition intercept_config :: retry_config where
  "intercept_config = \<lparr>retry_count = 1, retry_delay = 1000, resetOnSuccess = True\<rparr>"

definition intercept ::
  "nat \<Rightarrow> nat option \<Rightarrow> string \<Rightarrow> notification_service \<Rightarrow> 'b http_request
     \<Rightarrow> ('b http_request \<Rightarrow> nat \<Rightarrow> 'r attempt) \<Rightarrow> 'r intercepted option" where
  "intercept fuel dl new_id svc request next =
     (case rx_retry fuel dl intercept_config (next request) of
        None \<Rightarrow> None
      | Some r \<Rightarrow>
          (case outcome r of
             Done t v \<Rightarrow>
               Some \<lparr>handled = \<lparr>attempts = attempts r, waits = waits r, outcome = Done t v\<rparr>,
                     service = svc\<rparr>
           | Failed t error \<Rightarrow>
               (let (errorMessage, svc1) = intercept_catchError new_id error svc
                in Some \<lparr>handled = \<lparr>attempts = attempts r, waits = waits r,
                                       outcome = Failed t (JsError errorMessage)\<rparr>,
                         service = svc1\<rparr>)
           | Unfinished \<Rightarrow>
               Some \<lparr>handled = \<lparr>attempts = attempts r, waits = waits r, outcome = Unfinished\<rparr>,
                     service = svc\<rparr>))"

section \<open>ApiService (in core/services/ats.service.ts)\<close>

definition defaultTimeout :: nat where
  "defaultTimeout = 120000"

definition getHeaders :: "(string \<times> string) list" where
  "getHeaders = [(''Content-Type'', ''application/json'')]"

text \<open>\<open>timeoutMs || this.defaultTimeout\<close>: a missing or zero argument is falsy.\<close>

definition timeout_or_default :: "nat option \<Rightarrow> nat" where
  "timeout_or_default timeoutMs =
     (case timeoutMs of None \<Rightarrow> defaultTimeout | Some n \<Rightarrow> if n = 0 then defaultTimeout else n)"

text \<open>
  Each method hands a request to \<open>HttpClient\<close> and pipes the result through \<open>timeout\<close>
  and \<open>catchError(this.handleError)\<close>. A call is the request together with the argument
  of \<open>timeout\<close>. The base URL \<open>environment.apiUrl\<close> is a parameter.
\<close>

record 'b api_call =
  call_request :: "'b http_request"
  call_timeout :: nat

definition ApiService_get :: "string \<Rightarrow> string \<Rightarrow> nat option \<Rightarrow> 'b api_call" where
  "ApiService_get apiUrl endpoint timeoutMs =
     \<lparr>call_request = \<lparr>req_method = GET, req_url = apiUrl @ endpoint,
                        req_headers = getHeaders, req_body = None\<rparr>,
      call_timeout = timeout_or_default timeoutMs\<rparr>"

definition ApiService_post :: "string \<Rightarrow> string \<Rightarrow> 'b \<Rightarrow> nat option \<Rightarrow> 'b api_call" where
  "ApiService_post apiUrl endpoint data timeoutMs =
     \<lparr>call_request = \<lparr>req_method = POST, req_url = apiUrl @ endpoint,
                        req_headers = getHeaders, req_body = Some data\<rparr>,
      call_timeout = timeout_or_default timeoutMs\<rparr>"

definition ApiService_put :: "string \<Rightarrow> string \<Rightarrow> 'b \<Rightarrow> 'b api_call" where
  "ApiService_put apiUrl endpoint data =
     \<lparr>call_request = \<lparr>req_method = PUT, req_url = apiUrl @ endpoint,
                        req_headers = getHeaders, req_body = Some data\<rparr>,
      call_timeout = defaultTimeout\<rparr>"

definition ApiService_delete :: "string \<Rightarrow> string \<Rightarrow> 'b api_call" where
  "ApiService_delete apiUrl endpoint =
     \<lparr>call_request = \<lparr>req_method = DELETE, req_url = apiUrl @ endpoint,
                        req_headers = getHeaders, req_body = None\<rparr>,
      call_timeout = defaultTimeout\<rparr>"

definition handleError :: "thrown \<Rightarrow> string" where
  "handleError error =
     (case thrown_error_event error of
        Some m \<Rightarrow> ''Error: '' @ m
      | None \<Rightarrow> or_else (thrown_detail error) (or_else (thrown_message error) ''Server error''))"

definition ApiService_pipe :: "nat \<Rightarrow> ('r, thrown) fin \<Rightarrow> ('r, thrown) fin" where
  "ApiService_pipe ms inner = rx_catchError handleError (rx_timeout ms inner)"

text \<open>
  A call run against an \<open>HttpClient\<close>, given by how the observable of a request ends
  for a subscriber that leaves at the deadline.
\<close>

definition ApiService_run ::
  "('b http_request \<Rightarrow> nat \<Rightarrow> ('r, thrown) fin) \<Rightarrow> 'b api_call \<Rightarrow> ('r, thrown) fin" where
  "ApiService_run http call =
     ApiService_pipe (call_timeout call) (http (call_request call) (call_timeout call))"

definition settled_by :: "nat \<Rightarrow> ('r, 'e) fin \<Rightarrow> bool" where
  "settled_by ms f = (case f of Done t _ \<Rightarrow> t \<le> ms | Failed t _ \<Rightarrow> t \<le> ms | Unfinished \<Rightarrow> False)"

section \<open>The services over ApiService (image.service.ts, ats.service.ts)\<close>

definition ImageService_generateImage :: "string \<Rightarrow> 'b \<Rightarrow> 'b api_call" where
  "ImageService_generateImage apiUrl request =
     ApiService_post apiUrl ''/image/generate'' request (Some 300000)"

definition AtsService_analyzeResume :: "string \<Rightarrow> 'b \<Rightarrow> 'b api_call" where
  "AtsService_analyzeResume apiUrl request = ApiService_post apiUrl ''/ats/analyze'' request None"

definition ResumeService_generateResume :: "string \<Rightarrow> 'b \<Rightarrow> 'b api_call" where
  "ResumeService_generateResume apiUrl request =
     ApiService_post apiUrl ''/resume/generate'' request None"

section \<open>A submission from the component to the backend\<close>

text \<open>
  Modelled from the spec: the provider configuration that installs the interceptors on
  \<open>HttpClient\<close> is not among the sources. The spec has the error interceptor wrap every
  outgoing request, between \<open>ApiService\<close> and the backend; \<open>HttpClient\<close> hands the body of
  the response to its caller. The backend is given by what the \<open>k\<close>-th subscription for
  a request does, and the subscriber leaves at the deadline.
\<close>

definition HttpClient_request ::
  "nat \<Rightarrow> string \<Rightarrow> notification_service \<Rightarrow> ('b http_request \<Rightarrow> nat \<Rightarrow> 'r attempt)
     \<Rightarrow> 'b http_request \<Rightarrow> nat \<Rightarrow> 'r intercepted option" where
  "HttpClient_request fuel new_id svc backend request deadline =
     intercept fuel (Some deadline) new_id svc request backend"

text \<open>
  \<open>analyzeResume()\<close> with its subscription: the component after the callbacks have run,
  the number of subscriptions to the backend, and the notification service.
\<close>

record 'r submitted =
  component :: "'r ats_component"
  backend_calls :: nat
  notified :: notification_service

definition submit_analysis ::
  "nat \<Rightarrow> string \<Rightarrow> string \<Rightarrow> notification_service
     \<Rightarrow> (ats_request http_request \<Rightarrow> nat \<Rightarrow> 'r attempt) \<Rightarrow> 'r ats_component
     \<Rightarrow> 'r submitted option" where
  "submit_analysis fuel apiUrl new_id svc backend c =
     (case analyzeResume c of
        (c1, []) \<Rightarrow> Some \<lparr>component = c1, backend_calls = 0, notified = svc\<rparr>
      | (c1, request # _) \<Rightarrow>
          (let call = AtsService_analyzeResume apiUrl request
           in case HttpClient_request fuel new_id svc backend
                     (call_request call) (call_timeout call) of
                None \<Rightarrow> None
              | Some r \<Rightarrow>
                  Some \<lparr>component =
                          (case ApiService_pipe (call_timeout call) (outcome (handled r)) of
                             Done t response \<Rightarrow> analyzeResume_next response c1
                           | Failed t err \<Rightarrow> analyzeResume_error (thrown_message err) c1
                           | Unfinished \<Rightarrow> c1),
                        backend_calls = attempts (handled r),
                        notified = service r\<rparr>))"

section \<open>Notification queue: removal\<close>

lemma filter_id_absent:
  "rid \<notin> notif_id ` set ns \<Longrightarrow> filter (\<lambda>n. notif_id n \<noteq> rid) ns = ns"
  by (induction ns) auto

text \<open>
  Claim C5. Removing a notification by identifier is idempotent: when no notification
  of the queue has the identifier, \<open>remove\<close> leaves the service as it is, and removing
  the same identifier a second time changes nothing more.
\<close>

theorem remove_idempotent:
  "(rid \<notin> notif_id ` set (notifications svc) \<longrightarrow> NotificationService_remove rid svc = svc) \<and>
   NotificationService_remove rid (NotificationService_remove rid svc) =
     NotificationService_remove rid svc"
  by (simp add: NotificationService_remove_def filter_id_absent)

theorem remove_idempotent_witness:
  "''b'' \<notin> notif_id ` set (notifications
       (NotificationService_error ''a'' ''Access forbidden.'' NotificationService_init)) \<and>
   NotificationService_remove ''b''
       (NotificationService_error ''a'' ''Access forbidden.'' NotificationService_init) =
     NotificationService_error ''a'' ''Access forbidden.'' NotificationService_init \<and>
   notifications (NotificationService_remove ''a''
       (NotificationService_error ''a'' ''Access forbidden.'' NotificationService_init)) = []"
  using remove_idempotent [of "''b''"
      "NotificationService_error ''a'' ''Access forbidden.'' NotificationService_init"]
  by (simp add: NotificationService_remove_def NotificationService_error_def
      NotificationService_show_def NotificationService_init_def)

section \<open>Image URLs\<close>

text \<open>
  Claim C10. \<open>getImageUrl\<close> returns its input unchanged exactly when the input is
  non-empty and starts with \<open>http://\<close> or \<open>https://\<close>; for every other input it returns
  \<open>http://localhost:8000/images/\<close> followed by the input.
\<close>

theorem getImageUrl_spec:
  "(getImageUrl s = s \<longleftrightarrow>
      (s \<noteq> [] \<and> (startsWith s ''http://'' \<or> startsWith s ''https://''))) \<and>
   (\<not> (s \<noteq> [] \<and> (startsWith s ''http://'' \<or> startsWith s ''https://'')) \<longrightarrow>
      getImageUrl s = ''http://localhost:8000/images/'' @ s)"
proof -
  have "''http://localhost:8000/images/'' @ s \<noteq> s"
  proof
    assume "''http://localhost:8000/images/'' @ s = s"
    then have "length (''http://localhost:8000/images/'' @ s) = length s" by simp
    then show False by simp
  qed
  then show ?thesis by (simp add: getImageUrl_def)
qed

theorem getImageUrl_spec_witness:
  "getImageUrl ''https://cdn.example/a.png'' = ''https://cdn.example/a.png'' \<and>
   getImageUrl ''a.png'' = ''http://localhost:8000/images/a.png'' \<and>
   getImageUrl [] = ''http://localhost:8000/images/''"
  using getImageUrl_spec [of "''https://cdn.example/a.png''"]
    getImageUrl_spec [of "''a.png''"] getImageUrl_spec [of "[]"]
  by (simp add: startsWith_def)

section \<open>Image history\<close>

lemma butlast_take_11: "length h = 12 \<Longrightarrow> butlast h = take 11 h"
  by (simp add: butlast_conv_take)

lemma history_step_length:
  "length (history c) \<le> 12 \<Longrightarrow> length (history (generateImage_next r c)) \<le> 12"
  by (simp add: generateImage_next_def Let_def)

lemma history_receive_all:
  "length (history c) \<le> 12 \<Longrightarrow> length (history (receive_all rs c)) \<le> 12"
  by (induction rs arbitrary: c) (simp_all add: history_step_length)

lemma last_of_twelve: "length h = 12 \<Longrightarrow> h = take 11 h @ [h ! 11]"
proof -
  assume len: "length h = 12"
  have "drop 11 h = h ! 11 # drop (Suc 11) h"
    using Cons_nth_drop_Suc [of 11 h] len by simp
  then have "drop 11 h = [h ! 11]" using len by simp
  moreover have "h = take 11 h @ drop 11 h" by simp
  ultimately show ?thesis by simp
qed

lemma history_step_front:
  "history (generateImage_next r c) ! 0 =
     r\<lparr>resp_prompt := Some (prompt c), resp_style := Some (selectedStyle c)\<rparr>"
  by (simp add: generateImage_next_def Let_def)

lemma history_step_room:
  "length (history c) < 12 \<Longrightarrow>
     history (generateImage_next r c) =
       r\<lparr>resp_prompt := Some (prompt c), resp_style := Some (selectedStyle c)\<rparr> # history c"
  by (simp add: generateImage_next_def Let_def)

lemma history_step_full:
  "length (history c) = 12 \<Longrightarrow>
     history (generateImage_next r c) =
       r\<lparr>resp_prompt := Some (prompt c), resp_style := Some (selectedStyle c)\<rparr>
         # take 11 (history c)"
proof -
  assume len: "length (history c) = 12"
  then have "history c \<noteq> []" by auto
  then show ?thesis
    using len by (simp add: generateImage_next_def Let_def butlast_take_11)
qed

text \<open>
  Claim C2. The history of the image component never holds more than 12 entries: that
  is so after any run of responses from the initial state, and a response keeps it so.
  The response (with the prompt and style written into it) becomes entry 0. With fewer
  than 12 entries before, all of them follow it; with 12 before, the first 11 follow it in
  their order and the entry that was at index 11 is the one dropped.
\<close>

theorem history_bounded:
  "length (history (receive_all rs ImageGenerationComponent_init)) \<le> 12 \<and>
   (length (history c) \<le> 12 \<longrightarrow>
      length (history (generateImage_next r c)) \<le> 12 \<and>
      history (generateImage_next r c) ! 0 =
        r\<lparr>resp_prompt := Some (prompt c), resp_style := Some (selectedStyle c)\<rparr> \<and>
      (length (history c) < 12 \<longrightarrow>
         history (generateImage_next r c) =
           r\<lparr>resp_prompt := Some (prompt c), resp_style := Some (selectedStyle c)\<rparr> # history c) \<and>
      (length (history c) = 12 \<longrightarrow>
         history (generateImage_next r c) =
           r\<lparr>resp_prompt := Some (prompt c), resp_style := Some (selectedStyle c)\<rparr>
             # take 11 (history c) \<and>
         history c = take 11 (history c) @ [history c ! 11]))"
proof -
  have init: "length (history (receive_all rs ImageGenerationComponent_init)) \<le> 12"
    by (rule history_receive_all) (simp add: ImageGenerationComponent_init_def)
  show ?thesis
    using init history_step_length [of c r] history_step_front [of r c]
      history_step_room [of c r] history_step_full [of c r] last_of_twelve [of "history c"]
    by blast
qed

theorem history_bounded_witness:
  "length (history ImageGenerationComponent_init) \<le> 12 \<and>
   history (generateImage_next
       \<lparr>image_url = ''a.png'', enhanced_prompt = ''a cat, detailed'', resp_message = ''ok'',
        resp_prompt = None, resp_style = None\<rparr>
       (ImageGenerationComponent_init\<lparr>prompt := ''a cat''\<rparr>)) =
     [\<lparr>image_url = ''a.png'', enhanced_prompt = ''a cat, detailed'', resp_message = ''ok'',
       resp_prompt = Some ''a cat'', resp_style = Some ''realistic''\<rparr>] \<and>
   length (history (ImageGenerationComponent_init\<lparr>history := replicate 12
       \<lparr>image_url = ''old.png'', enhanced_prompt = ''a dog'', resp_message = ''ok'',
        resp_prompt = Some ''dog'', resp_style = Some ''sketch''\<rparr>\<rparr>)) = 12 \<and>
   history (generateImage_next
       \<lparr>image_url = ''a.png'', enhanced_prompt = ''a cat, detailed'', resp_message = ''ok'',
        resp_prompt = None, resp_style = None\<rparr>
       (ImageGenerationComponent_init\<lparr>history := replicate 12
       \<lparr>image_url = ''old.png'', enhanced_prompt = ''a dog'', resp_message = ''ok'',
        resp_prompt = Some ''dog'', resp_style = Some ''sketch''\<rparr>\<rparr>)) =
     \<lparr>image_url = ''a.png'', enhanced_prompt = ''a cat, detailed'', resp_message = ''ok'',
      resp_prompt = Some [], resp_style = Some ''realistic''\<rparr> # replicate 11
       \<lparr>image_url = ''old.png'', enhanced_prompt = ''a dog'', resp_message = ''ok'',
        resp_prompt = Some ''dog'', resp_style = Some ''sketch''\<rparr>"
proof -
  have "length (history (ImageGenerationComponent_init\<lparr>prompt := ''a cat''\<rparr>)) \<le> 12"
    and "length (history (ImageGenerationComponent_init\<lparr>prompt := ''a cat''\<rparr>)) < 12"
    and "history (ImageGenerationComponent_init\<lparr>prompt := ''a cat''\<rparr>) = []"
    and start: "length (history ImageGenerationComponent_init) \<le> 12"
    by (simp_all add: ImageGenerationComponent_init_def)
  then have room: "history (generateImage_next
       \<lparr>image_url = ''a.png'', enhanced_prompt = ''a cat, detailed'', resp_message = ''ok'',
        resp_prompt = None, resp_style = None\<rparr>
       (ImageGenerationComponent_init\<lparr>prompt := ''a cat''\<rparr>)) =
     [\<lparr>image_url = ''a.png'', enhanced_prompt = ''a cat, detailed'', resp_message = ''ok'',
       resp_prompt = Some ''a cat'', resp_style = Some ''realistic''\<rparr>]"
    using history_bounded [of "[]" "ImageGenerationComponent_init\<lparr>prompt := ''a cat''\<rparr>"
        "\<lparr>image_url = ''a.png'', enhanced_prompt = ''a cat, detailed'', resp_message = ''ok'',
          resp_prompt = None, resp_style = None\<rparr>"]
    by (simp add: ImageGenerationComponent_init_def)
  have twelve:
    "length (history (ImageGenerationComponent_init\<lparr>history := replicate 12
       \<lparr>image_url = ''old.png'', enhanced_prompt = ''a dog'', resp_message = ''ok'',
        resp_prompt = Some ''dog'', resp_style = Some ''sketch''\<rparr>\<rparr>)) = 12"
    by simp
  have "length (history (ImageGenerationComponent_init\<lparr>history := replicate 12
       \<lparr>image_url = ''old.png'', enhanced_prompt = ''a dog'', resp_message = ''ok'',
        resp_prompt = Some ''dog'', resp_style = Some ''sketch''\<rparr>\<rparr>)) \<le> 12"
    by simp
  with twelve have "history (generateImage_next
       \<lparr>image_url = ''a.png'', enhanced_prompt = ''a cat, detailed'', resp_message = ''ok'',
        resp_prompt = None, resp_style = None\<rparr>
       (ImageGenerationComponent_init\<lparr>history := replicate 12
       \<lparr>image_url = ''old.png'', enhanced_prompt = ''a dog'', resp_message = ''ok'',
        resp_prompt = Some ''dog'', resp_style = Some ''sketch''\<rparr>\<rparr>)) =
     \<lparr>image_url = ''a.png'', enhanced_prompt = ''a cat, detailed'', resp_message = ''ok'',
      resp_prompt = None, resp_style = None\<rparr>
      \<lparr>resp_prompt := Some (prompt (ImageGenerationComponent_init\<lparr>history := replicate 12
       \<lparr>image_url = ''old.png'', enhanced_prompt = ''a dog'', resp_message = ''ok'',
        resp_prompt = Some ''dog'', resp_style = Some ''sketch''\<rparr>\<rparr>)),
       resp_style :=
         Some (selectedStyle (ImageGenerationComponent_init\<lparr>history := replicate 12
       \<lparr>image_url = ''old.png'', enhanced_prompt = ''a dog'', resp_message = ''ok'',
        resp_prompt = Some ''dog'', resp_style = Some ''sketch''\<rparr>\<rparr>))\<rparr>
      # take 11 (history (ImageGenerationComponent_init\<lparr>history := replicate 12
       \<lparr>image_url = ''old.png'', enhanced_prompt = ''a dog'', resp_message = ''ok'',
        resp_prompt = Some ''dog'', resp_style = Some ''sketch''\<rparr>\<rparr>))"
    using history_bounded [of "[]" "ImageGenerationComponent_init\<lparr>history := replicate 12
       \<lparr>image_url = ''old.png'', enhanced_prompt = ''a dog'', resp_message = ''ok'',
        resp_prompt = Some ''dog'', resp_style = Some ''sketch''\<rparr>\<rparr>"
        "\<lparr>image_url = ''a.png'', enhanced_prompt = ''a cat, detailed'', resp_message = ''ok'',
          resp_prompt = None, resp_style = None\<rparr>"]
    by blast
  then have full: "history (generateImage_next
       \<lparr>image_url = ''a.png'', enhanced_prompt = ''a cat, detailed'', resp_message = ''ok'',
        resp_prompt = None, resp_style = None\<rparr>
       (ImageGenerationComponent_init\<lparr>history := replicate 12
       \<lparr>image_url = ''old.png'', enhanced_prompt = ''a dog'', resp_message = ''ok'',
        resp_prompt = Some ''dog'', resp_style = Some ''sketch''\<rparr>\<rparr>)) =
     \<lparr>image_url = ''a.png'', enhanced_prompt = ''a cat, detailed'', resp_message = ''ok'',
      resp_prompt = Some [], resp_style = Some ''realistic''\<rparr> # replicate 11
       \<lparr>image_url = ''old.png'', enhanced_prompt = ''a dog'', resp_message = ''ok'',
        resp_prompt = Some ''dog'', resp_style = Some ''sketch''\<rparr>"
    by (simp add: ImageGenerationComponent_init_def)
  show ?thesis using start room twelve full by blast
qed

section \<open>Validation before the ATS request\<close>

text \<open>
  Claim C6. With an empty resume text or an empty job description, \<open>analyzeResume\<close>
  sets the validation error and hands no request to the service, so that the submission
  ends with no subscription to the backend; a request is handed over exactly when both
  fields are non-empty, and it carries the two fields.
\<close>

theorem analyzeResume_validation:
  "((resumeText c = [] \<or> jobDescription c = []) \<longrightarrow>
      analyzeResume c = (c\<lparr>ats_error := ''Please fill both fields''\<rparr>, []) \<and>
      submit_analysis fuel apiUrl new_id svc backend c =
        Some \<lparr>component = c\<lparr>ats_error := ''Please fill both fields''\<rparr>,
              backend_calls = 0, notified = svc\<rparr>) \<and>
   (snd (analyzeResume c) \<noteq> [] \<longleftrightarrow> (resumeText c \<noteq> [] \<and> jobDescription c \<noteq> [])) \<and>
   ((resumeText c \<noteq> [] \<and> jobDescription c \<noteq> []) \<longrightarrow>
      snd (analyzeResume c) =
        [\<lparr>resume_text = resumeText c, ats_job_description = jobDescription c\<rparr>])"
  by (simp add: analyzeResume_def submit_analysis_def)

theorem analyzeResume_validation_witness:
  "analyzeResume \<lparr>resumeText = [], jobDescription = ''Engineer'', ats_loading = False,
       ats_error = [], ats_result = (None :: unit option)\<rparr> =
     (\<lparr>resumeText = [], jobDescription = ''Engineer'', ats_loading = False,
       ats_error = ''Please fill both fields'', ats_result = None\<rparr>, []) \<and>
   submit_analysis 0 ''http://localhost:8000'' ''notif_1'' NotificationService_init
       (\<lambda>request k. \<lparr>announces = True, reply = Responds (), elapsed = 900\<rparr>)
       \<lparr>resumeText = [], jobDescription = ''Engineer'', ats_loading = False,
        ats_error = [], ats_result = None\<rparr> =
     Some \<lparr>component = \<lparr>resumeText = [], jobDescription = ''Engineer'', ats_loading = False,
             ats_error = ''Please fill both fields'', ats_result = None\<rparr>,
           backend_calls = 0, notified = NotificationService_init\<rparr> \<and>
   snd (analyzeResume \<lparr>resumeText = ''Ten years of Java'', jobDescription = ''Engineer'',
       ats_loading = False, ats_error = [], ats_result = (None :: unit option)\<rparr>) =
     [\<lparr>resume_text = ''Ten years of Java'', ats_job_description = ''Engineer''\<rparr>]"
  using analyzeResume_validation [of "\<lparr>resumeText = [], jobDescription = ''Engineer'',
        ats_loading = False, ats_error = [], ats_result = (None :: unit option)\<rparr>"
      0 "''http://localhost:8000''" "''notif_1''" NotificationService_init
      "\<lambda>request k. \<lparr>announces = True, reply = Responds (), elapsed = 900\<rparr>"]
    analyzeResume_validation [of "\<lparr>resumeText = ''Ten years of Java'',
        jobDescription = ''Engineer'', ats_loading = False, ats_error = [],
        ats_result = (None :: unit option)\<rparr>"
      0 "''http://localhost:8000''" "''notif_1''" NotificationService_init
      "\<lambda>request k. \<lparr>announces = True, reply = Responds (), elapsed = 900\<rparr>"]
  by simp

section \<open>Resume lists\<close>

lemma splice1_length: "length xs - 1 \<le> length (splice1 i xs)"
proof -
  have "length (take s xs @ drop (Suc s) xs) \<ge> length xs - 1" for s
    by simp
  then show ?thesis unfolding splice1_def Let_def by blast
qed

lemma splice1_nonempty: "1 < length xs \<Longrightarrow> splice1 i xs \<noteq> []"
proof
  assume "1 < length xs" and "splice1 i xs = []"
  then show False using splice1_length [of xs i] by simp
qed

lemma splice1_subset: "set (splice1 i xs) \<subseteq> set xs"
proof -
  have "set (take n xs @ drop m xs) \<subseteq> set xs" for n m
    using set_take_subset [of n xs] set_drop_subset [of m xs] by simp
  then show ?thesis unfolding splice1_def Let_def by blast
qed

lemma splice1_all: "list_all P xs \<Longrightarrow> list_all P (splice1 i xs)"
  using splice1_subset [of i xs] by (auto simp add: list_all_iff)

lemma update_all: "list_all P xs \<Longrightarrow> P x \<Longrightarrow> list_all P (xs[n := x])"
  using set_update_subset_insert [of xs n x] by (auto simp add: list_all_iff)

lemma gen_addExperience_keeps: "lists_nonempty d \<Longrightarrow> lists_nonempty (gen_addExperience d)"
  by (simp add: lists_nonempty_def gen_addExperience_def blank_experience_def)

lemma gen_removeExperience_keeps: "lists_nonempty d \<Longrightarrow> lists_nonempty (gen_removeExperience i d)"
  by (simp add: lists_nonempty_def gen_removeExperience_def splice1_nonempty splice1_all)

lemma gen_addEducation_keeps: "lists_nonempty d \<Longrightarrow> lists_nonempty (gen_addEducation d)"
  by (simp add: lists_nonempty_def gen_addEducation_def)

lemma gen_removeEducation_keeps: "lists_nonempty d \<Longrightarrow> lists_nonempty (gen_removeEducation i d)"
  by (simp add: lists_nonempty_def gen_removeEducation_def splice1_nonempty)

lemma gen_addResponsibility_keeps:
  "lists_nonempty d \<Longrightarrow> gen_addResponsibility i d = Inr d1 \<Longrightarrow> lists_nonempty d1"
  by (auto simp add: lists_nonempty_def gen_addResponsibility_def update_all
      split: option.splits)

lemma gen_removeResponsibility_keeps:
  "lists_nonempty d \<Longrightarrow> gen_removeResponsibility i j d = Inr d1 \<Longrightarrow> lists_nonempty d1"
  by (auto simp add: lists_nonempty_def gen_removeResponsibility_def update_all splice1_nonempty
      split: option.splits if_splits)

lemma form_call_gen_call: "form_call call d = gen_call call d"
proof (cases call)
  case (AddResponsibility i)
  then show ?thesis
    by (cases "js_index (experience d) i")
      (simp_all add: form_addResponsibility_def gen_addResponsibility_def emitChange_def)
next
  case (RemoveResponsibility i j)
  then show ?thesis
    by (cases "js_index (experience d) i")
      (simp_all add: form_removeResponsibility_def gen_removeResponsibility_def emitChange_def
        Let_def)
qed (simp_all add: form_addExperience_def gen_addExperience_def form_removeExperience_def
      gen_removeExperience_def form_addEducation_def gen_addEducation_def
      form_removeEducation_def gen_removeEducation_def emitChange_def)

lemma gen_call_keeps: "lists_nonempty d \<Longrightarrow> lists_nonempty (gen_call call d)"
proof (cases call)
  case (AddResponsibility i)
  assume "lists_nonempty d"
  then show ?thesis
    using AddResponsibility gen_addResponsibility_keeps [of d i]
    by (cases "gen_addResponsibility i d") auto
next
  case (RemoveResponsibility i j)
  assume "lists_nonempty d"
  then show ?thesis
    using RemoveResponsibility gen_removeResponsibility_keeps [of d i j]
    by (cases "gen_removeResponsibility i j d") auto
qed (simp_all add: gen_addExperience_keeps gen_removeExperience_keeps gen_addEducation_keeps
      gen_removeEducation_keeps)

lemma gen_calls_keep: "lists_nonempty d \<Longrightarrow> lists_nonempty (fold gen_call calls d)"
  by (induction calls arbitrary: d) (simp_all add: gen_call_keeps)

lemma form_calls_keep: "lists_nonempty d \<Longrightarrow> lists_nonempty (fold form_call calls d)"
  by (induction calls arbitrary: d) (simp_all add: gen_call_keeps form_call_gen_call)

lemma last_entry_refused:
  "length (experience d) \<le> 1 \<Longrightarrow> gen_removeExperience i d = d \<and> form_removeExperience i d = (d, [])"
  "length (education d) \<le> 1 \<Longrightarrow> gen_removeEducation i d = d \<and> form_removeEducation i d = (d, [])"
  "js_index (experience d) i = Some e \<Longrightarrow> length (responsibilities e) \<le> 1 \<Longrightarrow>
     gen_removeResponsibility i j d = Inr d \<and> form_removeResponsibility i j d = Inr (d, [])"
  by (simp_all add: gen_removeExperience_def form_removeExperience_def gen_removeEducation_def
      form_removeEducation_def gen_removeResponsibility_def form_removeResponsibility_def Let_def)


text \<open>
  Claim C9. In the resume generator and in the resume form, the experience list, the
  education list and the responsibilities of every experience entry stay non-empty:
  the generator starts with one entry in each, every call on the list controls (one or
  a run of them) keeps the three non-empty, and a remove on a list of one entry
  changes nothing and, in the form, emits no change.
\<close>

theorem lists_never_empty:
  "lists_nonempty ResumeGeneratorComponent_resumeData \<and>
   (lists_nonempty d \<longrightarrow>
      lists_nonempty (gen_call call d) \<and> lists_nonempty (form_call call d) \<and>
      lists_nonempty (fold gen_call calls d) \<and> lists_nonempty (fold form_call calls d)) \<and>
   (length (experience d) \<le> 1 \<longrightarrow>
      gen_removeExperience i d = d \<and> form_removeExperience i d = (d, [])) \<and>
   (length (education d) \<le> 1 \<longrightarrow>
      gen_removeEducation i d = d \<and> form_removeEducation i d = (d, [])) \<and>
   (js_index (experience d) i = Some e \<and> length (responsibilities e) \<le> 1 \<longrightarrow>
      gen_removeResponsibility i j d = Inr d \<and> form_removeResponsibility i j d = Inr (d, []))"
proof -
  have start: "lists_nonempty ResumeGeneratorComponent_resumeData"
    by (simp add: lists_nonempty_def ResumeGeneratorComponent_resumeData_def blank_experience_def)
  have step: "lists_nonempty d \<longrightarrow>
      lists_nonempty (gen_call call d) \<and> lists_nonempty (form_call call d) \<and>
      lists_nonempty (fold gen_call calls d) \<and> lists_nonempty (fold form_call calls d)"
    using gen_call_keeps [of d call] form_call_gen_call [of call d] gen_calls_keep [of d calls]
      form_calls_keep [of d calls]
    by simp
  show ?thesis
    using start step last_entry_refused(1) [of d i] last_entry_refused(2) [of d i]
      last_entry_refused(3) [of d i e j]
    by blast
qed

theorem lists_never_empty_witness:
  "lists_nonempty ResumeGeneratorComponent_resumeData \<and>
   lists_nonempty (fold gen_call [AddExperience, RemoveExperience 0, RemoveExperience 0,
      RemoveResponsibility 0 0, RemoveEducation 0] ResumeGeneratorComponent_resumeData) \<and>
   length (experience ResumeGeneratorComponent_resumeData) \<le> 1 \<and>
   gen_removeExperience 0 ResumeGeneratorComponent_resumeData = ResumeGeneratorComponent_resumeData \<and>
   length (education ResumeGeneratorComponent_resumeData) \<le> 1 \<and>
   form_removeEducation 0 ResumeGeneratorComponent_resumeData =
     (ResumeGeneratorComponent_resumeData, []) \<and>
   js_index (experience ResumeGeneratorComponent_resumeData) 0 = Some blank_experience \<and>
   length (responsibilities blank_experience) \<le> 1 \<and>
   form_removeResponsibility 0 0 ResumeGeneratorComponent_resumeData =
     Inr (ResumeGeneratorComponent_resumeData, [])"
proof -
  have a: "length (experience ResumeGeneratorComponent_resumeData) \<le> 1"
    and b: "length (education ResumeGeneratorComponent_resumeData) \<le> 1"
    and c: "js_index (experience ResumeGeneratorComponent_resumeData) 0 = Some blank_experience"
    and d: "length (responsibilities blank_experience) \<le> 1"
    by (simp_all add: ResumeGeneratorComponent_resumeData_def js_index_def blank_experience_def)
  show ?thesis
    using a b c d
      lists_never_empty [of ResumeGeneratorComponent_resumeData "AddExperience"
        "[AddExperience, RemoveExperience 0, RemoveExperience 0,
          RemoveResponsibility 0 0, RemoveEducation 0]" 0 blank_experience 0]
    by blast
qed

section \<open>Messages of the error interceptor\<close>

lemma or_else_nonempty: "b \<noteq> [] \<Longrightarrow> or_else a b \<noteq> []"
  by (simp add: or_else_def split: option.splits)

lemma or_else_cases:
  "or_else None b = b" "or_else (Some []) b = b" "s \<noteq> [] \<Longrightarrow> or_else (Some s) b = s"
  by (simp_all add: or_else_def)

lemma getServerErrorMessage_nonempty:
  "status e \<in> {400, 401, 403, 404, 408, 500, 503, 0} \<Longrightarrow> getServerErrorMessage e \<noteq> []"
  by (auto simp add: getServerErrorMessage_def or_else_nonempty)

lemma intercept_errorMessage_nonempty:
  "status e \<in> {400, 401, 403, 404, 408, 500, 503, 0} \<Longrightarrow> intercept_errorMessage e \<noteq> []"
  using getServerErrorMessage_nonempty [of e]
  by (cases "err_body e") (simp_all add: intercept_errorMessage_def)

lemma intercept_catchError_queue:
  "intercept_catchError new_id e svc =
     (intercept_errorMessage e,
      svc\<lparr>notifications := notifications svc @
             [\<lparr>notif_id = new_id, notif_type = Error,
               notif_message = intercept_errorMessage e, notif_duration = 7000\<rparr>],
           timers := timers svc @ [(7000, new_id)]\<rparr>)"
  by (simp add: intercept_catchError_def NotificationService_error_def
      NotificationService_show_def Let_def)

lemma intercept_on_failure:
  "rx_retry fuel dl intercept_config (next request) = Some r \<Longrightarrow> outcome r = Failed t e \<Longrightarrow>
   intercept fuel dl new_id svc request next =
     Some \<lparr>handled = \<lparr>attempts = attempts r, waits = waits r,
                        outcome = Failed t (JsError (fst (intercept_catchError new_id e svc)))\<rparr>,
           service = snd (intercept_catchError new_id e svc)\<rparr>"
  by (simp add: intercept_def intercept_catchError_def Let_def)

lemma server_messages:
  assumes "err_body e = ServerBody d"
  shows "status e = 0 \<Longrightarrow> intercept_errorMessage e =
           ''Cannot connect to server. Please check your internet connection.''"
    and "status e = 400 \<Longrightarrow> intercept_errorMessage e =
           or_else d ''Invalid request. Please check your input.''"
    and "status e = 401 \<Longrightarrow> intercept_errorMessage e = ''Unauthorized. Please log in.''"
    and "status e = 403 \<Longrightarrow> intercept_errorMessage e = ''Access forbidden.''"
    and "status e = 404 \<Longrightarrow> intercept_errorMessage e = ''Resource not found.''"
    and "status e = 408 \<Longrightarrow> intercept_errorMessage e = ''Request timeout. Please try again.''"
    and "status e = 500 \<Longrightarrow> intercept_errorMessage e =
           or_else d ''Server error. Please try again later.''"
    and "status e = 503 \<Longrightarrow> intercept_errorMessage e = ''Service temporarily unavailable.''"
  using assms by (simp_all add: intercept_errorMessage_def getServerErrorMessage_def)

text \<open>
  Claim C3. For an error whose status is one of 400, 401, 403, 404, 408, 500, 503 and 0,
  the callback of the final failure yields a non-empty message and appends exactly one
  notification, an error notification with that message, to the queue; when the retry
  stage gives up with the error, the interceptor ends with that message and that queue.
  For an error that carries a server body (not a client-side \<open>ErrorEvent\<close>) the message
  is the one of the status; for 400 and 500 a non-empty \<open>detail\<close> of the body is taken
  instead.
\<close>

theorem final_failure_notifies:
  "status e \<in> {400, 401, 403, 404, 408, 500, 503, 0} \<Longrightarrow>
   fst (intercept_catchError new_id e svc) \<noteq> [] \<and>
   notifications (snd (intercept_catchError new_id e svc)) =
     notifications svc @
       [\<lparr>notif_id = new_id, notif_type = Error,
         notif_message = fst (intercept_catchError new_id e svc), notif_duration = 7000\<rparr>] \<and>
   (rx_retry fuel dl intercept_config (next request) = Some r \<and> outcome r = Failed t e \<longrightarrow>
      intercept fuel dl new_id svc request next =
        Some \<lparr>handled = \<lparr>attempts = attempts r, waits = waits r,
                outcome = Failed t (JsError (fst (intercept_catchError new_id e svc)))\<rparr>,
              service = snd (intercept_catchError new_id e svc)\<rparr>) \<and>
   (err_body e = ServerBody d \<longrightarrow>
      (status e = 0 \<longrightarrow> fst (intercept_catchError new_id e svc) =
         ''Cannot connect to server. Please check your internet connection.'') \<and>
      (status e = 400 \<and> (d = None \<or> d = Some []) \<longrightarrow>
         fst (intercept_catchError new_id e svc) = ''Invalid request. Please check your input.'') \<and>
      (status e = 401 \<longrightarrow> fst (intercept_catchError new_id e svc) =
         ''Unauthorized. Please log in.'') \<and>
      (status e = 403 \<longrightarrow> fst (intercept_catchError new_id e svc) = ''Access forbidden.'') \<and>
      (status e = 404 \<longrightarrow> fst (intercept_catchError new_id e svc) = ''Resource not found.'') \<and>
      (status e = 408 \<longrightarrow> fst (intercept_catchError new_id e svc) =
         ''Request timeout. Please try again.'') \<and>
      (status e = 500 \<and> (d = None \<or> d = Some []) \<longrightarrow>
         fst (intercept_catchError new_id e svc) = ''Server error. Please try again later.'') \<and>
      (status e = 503 \<longrightarrow> fst (intercept_catchError new_id e svc) =
         ''Service temporarily unavailable.'') \<and>
      (\<forall>s. (status e = 400 \<or> status e = 500) \<and> d = Some s \<and> s \<noteq> [] \<longrightarrow>
         fst (intercept_catchError new_id e svc) = s))"
proof -
  assume known: "status e \<in> {400, 401, 403, 404, 408, 500, 503, 0}"
  have msg: "fst (intercept_catchError new_id e svc) = intercept_errorMessage e"
    by (simp add: intercept_catchError_queue)
  have nonempty: "fst (intercept_catchError new_id e svc) \<noteq> []"
    using known msg intercept_errorMessage_nonempty [of e] by simp
  have queue: "notifications (snd (intercept_catchError new_id e svc)) =
     notifications svc @
       [\<lparr>notif_id = new_id, notif_type = Error,
         notif_message = fst (intercept_catchError new_id e svc), notif_duration = 7000\<rparr>]"
    by (simp add: intercept_catchError_queue)
  have pipe: "rx_retry fuel dl intercept_config (next request) = Some r \<and> outcome r = Failed t e \<longrightarrow>
      intercept fuel dl new_id svc request next =
        Some \<lparr>handled = \<lparr>attempts = attempts r, waits = waits r,
                outcome = Failed t (JsError (fst (intercept_catchError new_id e svc)))\<rparr>,
              service = snd (intercept_catchError new_id e svc)\<rparr>"
    using intercept_on_failure [of fuel dl "next" request r t e new_id svc] by blast
  have table: "err_body e = ServerBody d \<longrightarrow>
      (status e = 0 \<longrightarrow> fst (intercept_catchError new_id e svc) =
         ''Cannot connect to server. Please check your internet connection.'') \<and>
      (status e = 400 \<and> (d = None \<or> d = Some []) \<longrightarrow>
         fst (intercept_catchError new_id e svc) = ''Invalid request. Please check your input.'') \<and>
      (status e = 401 \<longrightarrow> fst (intercept_catchError new_id e svc) =
         ''Unauthorized. Please log in.'') \<and>
      (status e = 403 \<longrightarrow> fst (intercept_catchError new_id e svc) = ''Access forbidden.'') \<and>
      (status e = 404 \<longrightarrow> fst (intercept_catchError new_id e svc) = ''Resource not found.'') \<and>
      (status e = 408 \<longrightarrow> fst (intercept_catchError new_id e svc) =
         ''Request timeout. Please try again.'') \<and>
      (status e = 500 \<and> (d = None \<or> d = Some []) \<longrightarrow>
         fst (intercept_catchError new_id e svc) = ''Server error. Please try again later.'') \<and>
      (status e = 503 \<longrightarrow> fst (intercept_catchError new_id e svc) =
         ''Service temporarily unavailable.'') \<and>
      (\<forall>s. (status e = 400 \<or> status e = 500) \<and> d = Some s \<and> s \<noteq> [] \<longrightarrow>
         fst (intercept_catchError new_id e svc) = s)"
    unfolding msg using server_messages [of e d] or_else_cases by metis
  show ?thesis using nonempty queue pipe table by blast
qed

theorem final_failure_notifies_witness:
  "status \<lparr>status = 400, err_body = ServerBody (Some ''Resume text too short''),
           err_text = ''Http failure response: 400''\<rparr> \<in> {400, 401, 403, 404, 408, 500, 503, 0} \<and>
   rx_retry (Suc (Suc 0)) None intercept_config
     (\<lambda>k. \<lparr>announces = False,
           reply = Fails \<lparr>status = 400, err_body = ServerBody (Some ''Resume text too short''),
                          err_text = ''Http failure response: 400''\<rparr>,
           elapsed = 20\<rparr> :: unit attempt) =
     Some \<lparr>attempts = 2, waits = [1000],
           outcome = Failed 1040
             \<lparr>status = 400, err_body = ServerBody (Some ''Resume text too short''),
              err_text = ''Http failure response: 400''\<rparr>\<rparr> \<and>
   intercept (Suc (Suc 0)) None ''notif_1'' NotificationService_init
     \<lparr>req_method = POST, req_url = ''/ats/analyze'', req_headers = getHeaders,
      req_body = Some ()\<rparr>
     (\<lambda>request k. \<lparr>announces = False,
           reply = Fails \<lparr>status = 400, err_body = ServerBody (Some ''Resume text too short''),
                          err_text = ''Http failure response: 400''\<rparr>,
           elapsed = 20\<rparr> :: unit attempt) =
     Some \<lparr>handled = \<lparr>attempts = 2, waits = [1000],
             outcome = Failed 1040 (JsError ''Resume text too short'')\<rparr>,
           service = \<lparr>notifications = [\<lparr>notif_id = ''notif_1'', notif_type = Error,
               notif_message = ''Resume text too short'', notif_duration = 7000\<rparr>],
             timers = [(7000, ''notif_1'')]\<rparr>\<rparr> \<and>
   fst (intercept_catchError ''notif_1''
     \<lparr>status = 404, err_body = ServerBody None,
      err_text = ''Http failure response: 404''\<rparr> NotificationService_init) = ''Resource not found.''"
proof -
  have run: "rx_retry (Suc (Suc 0)) None intercept_config
     (\<lambda>k. \<lparr>announces = False,
           reply = Fails \<lparr>status = 400, err_body = ServerBody (Some ''Resume text too short''),
                          err_text = ''Http failure response: 400''\<rparr>,
           elapsed = 20\<rparr> :: unit attempt) =
     Some \<lparr>attempts = 2, waits = [1000],
           outcome = Failed 1040
             \<lparr>status = 400, err_body = ServerBody (Some ''Resume text too short''),
              err_text = ''Http failure response: 400''\<rparr>\<rparr>"
    by (simp add: rx_retry_def intercept_config_def past_def Let_def)
  show ?thesis
    using run
      final_failure_notifies [of
        "\<lparr>status = 400, err_body = ServerBody (Some ''Resume text too short''),
          err_text = ''Http failure response: 400''\<rparr>" "''notif_1''" NotificationService_init
        "Suc (Suc 0)" None
        "\<lambda>request k. \<lparr>announces = False,
           reply = Fails \<lparr>status = 400, err_body = ServerBody (Some ''Resume text too short''),
                          err_text = ''Http failure response: 400''\<rparr>,
           elapsed = 20\<rparr> :: unit attempt"
        "\<lparr>req_method = POST, req_url = ''/ats/analyze'', req_headers = getHeaders,
          req_body = Some ()\<rparr>"
        "\<lparr>attempts = 2, waits = [1000],
           outcome = Failed 1040
             \<lparr>status = 400, err_body = ServerBody (Some ''Resume text too short''),
              err_text = ''Http failure response: 400''\<rparr>\<rparr>" 1040
        "Some ''Resume text too short''"]
      final_failure_notifies [of
        "\<lparr>status = 404, err_body = ServerBody None, err_text = ''Http failure response: 404''\<rparr>"
        "''notif_1''" NotificationService_init 0 None
        "\<lambda>request k. \<lparr>announces = False, reply = NoReply, elapsed = 0\<rparr> :: unit attempt"
        "\<lparr>req_method = POST, req_url = ''/ats/analyze'', req_headers = getHeaders,
          req_body = Some ()\<rparr>"
        "\<lparr>attempts = 0, waits = [], outcome = Unfinished\<rparr>" 0 None]
    by (simp add: intercept_catchError_queue NotificationService_init_def)
qed

section \<open>Retries of the error interceptor\<close>

lemma retry_loop_attempts:
  "retry_loop fuel dl cfg src soFar k t ws = Some r \<Longrightarrow> Suc k \<le> attempts r"
proof (induction fuel arbitrary: soFar k t ws)
  case 0
  then show ?case by simp
next
  case (Suc fuel)
  show ?case
  proof (cases "retry_loop fuel dl cfg src
      (Suc (if resetOnSuccess cfg \<and> announces (src k) then 0 else soFar)) (Suc k)
      (t + elapsed (src k) + retry_delay cfg) (ws @ [retry_delay cfg]) = Some r")
    case True
    then show ?thesis using Suc.IH by fastforce
  next
    case False
    then show ?thesis
      using Suc.prems by (auto simp add: Let_def split: if_splits reply.splits)
  qed
qed

lemma retry_loop_waits:
  "retry_loop fuel dl cfg src soFar k t ws = Some r \<Longrightarrow>
     waits r = ws @ replicate (attempts r - Suc k) (retry_delay cfg)"
proof (induction fuel arbitrary: soFar k t ws)
  case 0
  then show ?case by simp
next
  case (Suc fuel)
  show ?case
  proof (cases "retry_loop fuel dl cfg src
      (Suc (if resetOnSuccess cfg \<and> announces (src k) then 0 else soFar)) (Suc k)
      (t + elapsed (src k) + retry_delay cfg) (ws @ [retry_delay cfg]) = Some r")
    case True
    then have w: "waits r = (ws @ [retry_delay cfg]) @
        replicate (attempts r - Suc (Suc k)) (retry_delay cfg)"
      by (rule Suc.IH)
    have "Suc (Suc k) \<le> attempts r" using True by (rule retry_loop_attempts)
    then have "attempts r - Suc k = Suc (attempts r - Suc (Suc k))" by simp
    then show ?thesis using w by (simp add: replicate_append_same)
  next
    case False
    then show ?thesis
      using Suc.prems by (auto simp add: Let_def split: if_splits reply.splits)
  qed
qed

lemma retry_loop_failed_in_time:
  "retry_loop fuel (Some d) cfg src soFar k t ws = Some r \<Longrightarrow> outcome r = Failed t1 e \<Longrightarrow> t1 < d"
proof (induction fuel arbitrary: soFar k t ws)
  case 0
  then show ?case by simp
next
  case (Suc fuel)
  show ?case
  proof (cases "retry_loop fuel (Some d) cfg src
      (Suc (if resetOnSuccess cfg \<and> announces (src k) then 0 else soFar)) (Suc k)
      (t + elapsed (src k) + retry_delay cfg) (ws @ [retry_delay cfg]) = Some r")
    case True
    then show ?thesis using Suc.IH Suc.prems(2) by blast
  next
    case False
    then show ?thesis
      using Suc.prems by (auto simp add: Let_def past_def split: if_splits reply.splits)
  qed
qed

lemma retry_loop_done_in_time:
  "retry_loop fuel (Some d) cfg src soFar k t ws = Some r \<Longrightarrow> outcome r = Done t1 v \<Longrightarrow> t1 < d"
proof (induction fuel arbitrary: soFar k t ws)
  case 0
  then show ?case by simp
next
  case (Suc fuel)
  show ?case
  proof (cases "retry_loop fuel (Some d) cfg src
      (Suc (if resetOnSuccess cfg \<and> announces (src k) then 0 else soFar)) (Suc k)
      (t + elapsed (src k) + retry_delay cfg) (ws @ [retry_delay cfg]) = Some r")
    case True
    then show ?thesis using Suc.IH Suc.prems(2) by blast
  next
    case False
    then show ?thesis
      using Suc.prems by (auto simp add: Let_def past_def split: if_splits reply.splits)
  qed
qed

lemma retry_loop_failed_retried:
  "retry_loop fuel dl cfg src 0 k t ws = Some r \<Longrightarrow> outcome r = Failed t1 e \<Longrightarrow>
   0 < retry_count cfg \<Longrightarrow> Suc (Suc k) \<le> attempts r"
proof (cases fuel)
  case 0
  assume "retry_loop fuel dl cfg src 0 k t ws = Some r"
  then show ?thesis using 0 by simp
next
  case (Suc n)
  assume run: "retry_loop fuel dl cfg src 0 k t ws = Some r"
    and failed: "outcome r = Failed t1 e" and some: "0 < retry_count cfg"
  have "retry_loop n dl cfg src (Suc 0) (Suc k)
      (t + elapsed (src k) + retry_delay cfg) (ws @ [retry_delay cfg]) = Some r"
    using run failed some Suc by (auto simp add: Let_def split: if_splits reply.splits)
  then show ?thesis by (rule retry_loop_attempts)
qed

lemma retry_loop_enough_fuel:
  "0 < retry_delay cfg \<Longrightarrow> d \<le> t + fuel * retry_delay cfg \<Longrightarrow>
   retry_loop (Suc fuel) (Some d) cfg src soFar k t ws \<noteq> None"
proof (induction fuel arbitrary: soFar k t ws)
  case 0
  then show ?case by (simp add: Let_def past_def)
next
  case (Suc fuel)
  have "d \<le> (t + elapsed (src k) + retry_delay cfg) + fuel * retry_delay cfg"
    using Suc.prems(2) by simp
  then have "retry_loop (Suc fuel) (Some d) cfg src s (Suc k)
      (t + elapsed (src k) + retry_delay cfg) w \<noteq> None" for s w
    using Suc.IH Suc.prems(1) by blast
  then show ?case
    by (subst retry_loop.simps) (simp add: Let_def split: reply.splits del: retry_loop.simps)
qed

lemma retry_never_gives_up:
  "\<forall>k. announces (src k) \<and> (\<exists>e. reply (src k) = Fails e) \<Longrightarrow> resetOnSuccess cfg \<Longrightarrow>
   0 < retry_count cfg \<Longrightarrow> retry_loop fuel None cfg src soFar k t ws = None"
proof (induction fuel arbitrary: soFar k t ws)
  case 0
  then show ?case by simp
next
  case (Suc fuel)
  from Suc.prems(1) obtain e where "reply (src k) = Fails e" and "announces (src k)" by blast
  then show ?case
    using Suc.IH [OF Suc.prems] Suc.prems(2,3) by (simp add: Let_def past_def)
qed

lemma intercept_never_gives_up:
  "\<forall>k. announces (next request k) \<and> (\<exists>e. reply (next request k) = Fails e) \<Longrightarrow>
   intercept fuel None new_id svc request next = None"
  by (simp add: intercept_def rx_retry_def retry_never_gives_up intercept_config_def)

lemma retry_once_when_silent:
  assumes "reply (src 0) = Fails e0" and "\<not> announces (src 0)"
    and "reply (src 1) = Fails e1" and "\<not> announces (src 1)"
  shows "rx_retry (Suc (Suc fuel)) None intercept_config src =
     Some \<lparr>attempts = 2, waits = [1000],
           outcome = Failed (elapsed (src 0) + 1000 + elapsed (src 1)) e1\<rparr>"
  using assms by (simp add: rx_retry_def intercept_config_def past_def Let_def)

text \<open>
  Claim C1, at a failing input. For any request, whatever its method, a handler that
  emits the sent event and then fails with status 500 on its first two subscriptions,
  and responds on the third, is subscribed to three times, with two delays of 1000 ms:
  the failed request is retried twice, not once. When every subscription emits the sent
  event and fails, the interceptor never gives up, whatever the bound on the number of
  subscriptions. Each emitted event sets the counter of \<open>retry\<close> back to 0, since
  \<open>resetOnSuccess\<close> is set.
\<close>

theorem retried_more_than_once:
  "intercept 5 None new_id svc request
     (\<lambda>request k. \<lparr>announces = True,
           reply = (if k < 2
                    then Fails \<lparr>status = 500, err_body = ServerBody None,
                                err_text = ''Http failure response for /ats/analyze: 500''\<rparr>
                    else Responds r),
           elapsed = 50\<rparr>) =
     Some \<lparr>handled = \<lparr>attempts = 3, waits = [1000, 1000], outcome = Done 2150 r\<rparr>,
           service = svc\<rparr> \<and>
   intercept fuel None new_id svc request
     (\<lambda>request k. \<lparr>announces = True,
           reply = Fails \<lparr>status = 500, err_body = ServerBody None,
                          err_text = ''Http failure response for /ats/analyze: 500''\<rparr>,
           elapsed = 50\<rparr>) = None"
proof -
  have five: "(5::nat) = Suc (Suc (Suc (Suc (Suc 0))))" by simp
  have first: "intercept 5 None new_id svc request
     (\<lambda>request k. \<lparr>announces = True,
           reply = (if k < 2
                    then Fails \<lparr>status = 500, err_body = ServerBody None,
                                err_text = ''Http failure response for /ats/analyze: 500''\<rparr>
                    else Responds r),
           elapsed = 50\<rparr>) =
     Some \<lparr>handled = \<lparr>attempts = 3, waits = [1000, 1000], outcome = Done 2150 r\<rparr>,
           service = svc\<rparr>"
    unfolding five
    by (simp add: intercept_def rx_retry_def intercept_config_def past_def Let_def)
  have never: "intercept fuel None new_id svc request
     (\<lambda>request k. \<lparr>announces = True,
           reply = Fails \<lparr>status = 500, err_body = ServerBody None,
                          err_text = ''Http failure response for /ats/analyze: 500''\<rparr>,
           elapsed = 50\<rparr>) = None"
    by (rule intercept_never_gives_up) simp
  show ?thesis using first never by (rule conjI)
qed

section \<open>ApiService: timeouts and the translation of errors\<close>

lemma ApiService_run_settles: "settled_by (call_timeout call) (ApiService_run http call)"
  by (cases "http (call_request call) (call_timeout call)")
    (simp_all add: ApiService_run_def ApiService_pipe_def rx_timeout_def rx_catchError_def
      settled_by_def)

lemma analysis_call:
  "AtsService_analyzeResume apiUrl rq =
     \<lparr>call_request = \<lparr>req_method = POST, req_url = apiUrl @ ''/ats/analyze'',
                        req_headers = getHeaders, req_body = Some rq\<rparr>,
      call_timeout = 120000\<rparr>"
  by (simp add: AtsService_analyzeResume_def ApiService_post_def timeout_or_default_def
      defaultTimeout_def)

text \<open>
  Claim C7. Without an override, the calls built by \<open>get\<close>, \<open>post\<close>, \<open>put\<close> and \<open>delete\<close>
  carry the timeout of 120000 ms, and the image generation call carries 300000 ms. Every
  call run through the pipe of \<open>ApiService\<close> has ended, with a value or an error, no later
  than its timeout, whatever \<open>HttpClient\<close> does.
\<close>

theorem outbound_calls_bounded:
  "call_timeout (ApiService_get apiUrl endpoint None) = 120000 \<and>
   call_timeout (ApiService_post apiUrl endpoint data None) = 120000 \<and>
   call_timeout (ApiService_put apiUrl endpoint data) = 120000 \<and>
   call_timeout (ApiService_delete apiUrl endpoint) = 120000 \<and>
   call_timeout (ImageService_generateImage apiUrl request) = 300000 \<and>
   settled_by (call_timeout call) (ApiService_run http call) \<and>
   settled_by 300000 (ApiService_run http (ImageService_generateImage apiUrl request))"
proof -
  have "settled_by (call_timeout (ImageService_generateImage apiUrl request))
      (ApiService_run http (ImageService_generateImage apiUrl request))"
    by (rule ApiService_run_settles)
  moreover have "call_timeout (ImageService_generateImage apiUrl request) = 300000"
    by (simp add: ImageService_generateImage_def ApiService_post_def timeout_or_default_def)
  ultimately show ?thesis
    using ApiService_run_settles [of call http]
    by (simp add: ApiService_get_def ApiService_post_def ApiService_put_def
        ApiService_delete_def timeout_or_default_def defaultTimeout_def)
qed

theorem outbound_calls_bounded_witness:
  "ApiService_run (\<lambda>request deadline. Unfinished)
     (ImageService_generateImage ''http://localhost:8000'' ''a cat'') =
     (Failed 300000 (JsError ''Timeout has occurred'') :: (unit, thrown) fin) \<and>
   settled_by 300000 (ApiService_run (\<lambda>request deadline. (Unfinished :: (unit, thrown) fin))
     (ImageService_generateImage ''http://localhost:8000'' ''a cat''))"
  using outbound_calls_bounded [of "''http://localhost:8000''" "[]" "''a cat''" "''a cat''"
      "ImageService_generateImage ''http://localhost:8000'' ''a cat''"
      "\<lambda>request deadline. (Unfinished :: (unit, thrown) fin)"]
  by (simp add: ApiService_run_def ApiService_pipe_def rx_timeout_def rx_catchError_def
      handleError_def or_else_def ImageService_generateImage_def ApiService_post_def
      timeout_or_default_def settled_by_def)

text \<open>
  Claim C8 fails as stated: for a 404 response without a \<open>detail\<close>, \<open>handleError\<close>
  returns the text of the error itself, not the message that the table of statuses has
  for 404.
\<close>

theorem handleError_not_status_table:
  "handleError (HttpFailure \<lparr>status = 404, err_body = ServerBody None,
       err_text = ''Http failure response for http://localhost:8000/ats/analyze: 404 Not Found''\<rparr>) =
     ''Http failure response for http://localhost:8000/ats/analyze: 404 Not Found'' \<and>
   getServerErrorMessage \<lparr>status = 404, err_body = ServerBody None,
       err_text = ''Http failure response for http://localhost:8000/ats/analyze: 404 Not Found''\<rparr> =
     ''Resource not found.'' \<and>
   handleError (HttpFailure \<lparr>status = 404, err_body = ServerBody None,
       err_text = ''Http failure response for http://localhost:8000/ats/analyze: 404 Not Found''\<rparr>) \<noteq>
     getServerErrorMessage \<lparr>status = 404, err_body = ServerBody None,
       err_text = ''Http failure response for http://localhost:8000/ats/analyze: 404 Not Found''\<rparr>"
  by (simp add: handleError_def getServerErrorMessage_def or_else_def)

lemma handleError_nonempty: "handleError err \<noteq> []"
  by (cases "thrown_error_event err") (simp_all add: handleError_def or_else_nonempty)

lemma handleError_cases:
  "thrown_error_event err = Some m \<Longrightarrow> handleError err = ''Error: '' @ m"
  "thrown_error_event err = None \<Longrightarrow> thrown_detail err = Some s \<Longrightarrow> s \<noteq> [] \<Longrightarrow>
     handleError err = s"
  "thrown_error_event err = None \<Longrightarrow> thrown_detail err = None \<or> thrown_detail err = Some [] \<Longrightarrow>
     thrown_message err = Some m \<Longrightarrow> m \<noteq> [] \<Longrightarrow> handleError err = m"
  "thrown_error_event err = None \<Longrightarrow> thrown_detail err = None \<or> thrown_detail err = Some [] \<Longrightarrow>
     thrown_message err = None \<or> thrown_message err = Some [] \<Longrightarrow>
     handleError err = ''Server error''"
  by (auto simp add: handleError_def or_else_def)

lemma ApiService_run_cases:
  "http (call_request call) (call_timeout call) = Done t r \<Longrightarrow> t < call_timeout call \<Longrightarrow>
     ApiService_run http call = Done t r"
  "http (call_request call) (call_timeout call) = Failed t err \<Longrightarrow> t < call_timeout call \<Longrightarrow>
     ApiService_run http call = Failed t (JsError (handleError err))"
  "\<not> (\<exists>t r. http (call_request call) (call_timeout call) = Done t r \<and> t < call_timeout call) \<Longrightarrow>
     \<exists>t m. ApiService_run http call = Failed t (JsError m) \<and> m \<noteq> []"
proof -
  show "http (call_request call) (call_timeout call) = Done t r \<Longrightarrow> t < call_timeout call \<Longrightarrow>
     ApiService_run http call = Done t r"
    by (simp add: ApiService_run_def ApiService_pipe_def rx_timeout_def rx_catchError_def)
  show "http (call_request call) (call_timeout call) = Failed t err \<Longrightarrow> t < call_timeout call \<Longrightarrow>
     ApiService_run http call = Failed t (JsError (handleError err))"
    by (simp add: ApiService_run_def ApiService_pipe_def rx_timeout_def rx_catchError_def)
  show "\<not> (\<exists>t r. http (call_request call) (call_timeout call) = Done t r \<and> t < call_timeout call) \<Longrightarrow>
     \<exists>t m. ApiService_run http call = Failed t (JsError m) \<and> m \<noteq> []"
    using handleError_nonempty
    by (cases "http (call_request call) (call_timeout call)")
      (simp_all add: ApiService_run_def ApiService_pipe_def rx_timeout_def rx_catchError_def)
qed

text \<open>
  Claim C8, amended. \<open>ApiService\<close> makes one subscription and no retry: a value that
  arrives before the timeout is passed on, and in every other case the call fails with a
  single, non-empty message. For an error that arrives before the timeout the message is
  \<open>Error: \<close> followed by the message of a client-side \<open>ErrorEvent\<close>; otherwise the
  non-empty \<open>detail\<close> of the server body; otherwise the error's own non-empty message;
  otherwise \<open>Server error\<close>.
\<close>

theorem handleError_translation:
  "handleError err \<noteq> [] \<and>
   (\<forall>m. thrown_error_event err = Some m \<longrightarrow> handleError err = ''Error: '' @ m) \<and>
   (thrown_error_event err = None \<longrightarrow>
      (\<forall>s. thrown_detail err = Some s \<and> s \<noteq> [] \<longrightarrow> handleError err = s) \<and>
      (thrown_detail err = None \<or> thrown_detail err = Some [] \<longrightarrow>
         (\<forall>m. thrown_message err = Some m \<and> m \<noteq> [] \<longrightarrow> handleError err = m) \<and>
         (thrown_message err = None \<or> thrown_message err = Some [] \<longrightarrow>
            handleError err = ''Server error''))) \<and>
   (\<forall>t r. http (call_request call) (call_timeout call) = Done t r \<and> t < call_timeout call \<longrightarrow>
      ApiService_run http call = Done t r) \<and>
   (\<forall>t. http (call_request call) (call_timeout call) = Failed t err \<and> t < call_timeout call \<longrightarrow>
      ApiService_run http call = Failed t (JsError (handleError err))) \<and>
   (\<not> (\<exists>t r. http (call_request call) (call_timeout call) = Done t r \<and> t < call_timeout call) \<longrightarrow>
      (\<exists>t m. ApiService_run http call = Failed t (JsError m) \<and> m \<noteq> []))"
  using handleError_nonempty [of err] handleError_cases [of err] ApiService_run_cases [of http call]
  by blast

theorem handleError_translation_witness:
  "handleError (HttpFailure \<lparr>status = 422, err_body = ServerBody (Some ''Resume too long''),
       err_text = ''Http failure response: 422''\<rparr>) = ''Resume too long'' \<and>
   handleError (HttpFailure \<lparr>status = 0, err_body = ErrorEvent ''Network down'',
       err_text = ''Http failure response: 0''\<rparr>) = ''Error: Network down'' \<and>
   handleError TimeoutError = ''Timeout has occurred'' \<and>
   handleError (JsError []) = ''Server error'' \<and>
   ApiService_run (\<lambda>request deadline. Failed 10 TimeoutError)
     (AtsService_analyzeResume ''http://localhost:8000'' ()) =
     (Failed 10 (JsError ''Timeout has occurred'') :: (unit, thrown) fin) \<and>
   ApiService_run (\<lambda>request deadline. Done 900 ())
     (AtsService_analyzeResume ''http://localhost:8000'' ()) = Done 900 ()"
  using handleError_translation [of
      "HttpFailure \<lparr>status = 422, err_body = ServerBody (Some ''Resume too long''),
        err_text = ''Http failure response: 422''\<rparr>"
      "\<lambda>request deadline. (Unfinished :: (unit, thrown) fin)"
      "AtsService_analyzeResume ''http://localhost:8000'' ()"]
    handleError_translation [of
      "HttpFailure \<lparr>status = 0, err_body = ErrorEvent ''Network down'',
        err_text = ''Http failure response: 0''\<rparr>"
      "\<lambda>request deadline. Done 900 ()"
      "AtsService_analyzeResume ''http://localhost:8000'' ()"]
    handleError_translation [of TimeoutError
      "\<lambda>request deadline. (Failed 10 TimeoutError :: (unit, thrown) fin)"
      "AtsService_analyzeResume ''http://localhost:8000'' ()"]
    handleError_translation [of "JsError []"
      "\<lambda>request deadline. (Unfinished :: (unit, thrown) fin)"
      "AtsService_analyzeResume ''http://localhost:8000'' ()"]
  by (simp add: analysis_call)

section \<open>An analysis that gets no reply\<close>

lemma submit_valid:
  "resumeText c \<noteq> [] \<Longrightarrow> jobDescription c \<noteq> [] \<Longrightarrow>
   intercept fuel (Some 120000) new_id svc
     \<lparr>req_method = POST, req_url = apiUrl @ ''/ats/analyze'', req_headers = getHeaders,
      req_body = Some \<lparr>resume_text = resumeText c, ats_job_description = jobDescription c\<rparr>\<rparr>
     backend = Some r \<Longrightarrow>
   submit_analysis fuel apiUrl new_id svc backend c =
     Some \<lparr>component =
             (case ApiService_pipe 120000 (outcome (handled r)) of
                Done t response \<Rightarrow>
                  analyzeResume_next response (c\<lparr>ats_loading := True, ats_error := []\<rparr>)
              | Failed t err \<Rightarrow>
                  analyzeResume_error (thrown_message err) (c\<lparr>ats_loading := True, ats_error := []\<rparr>)
              | Unfinished \<Rightarrow> c\<lparr>ats_loading := True, ats_error := []\<rparr>),
           backend_calls = attempts (handled r),
           notified = service r\<rparr>"
  by (simp add: submit_analysis_def analyzeResume_def analysis_call HttpClient_request_def Let_def)

lemma intercept_unanswered:
  "reply (next request 0) = NoReply \<or> d \<le> elapsed (next request 0) \<Longrightarrow>
   intercept (Suc fuel) (Some d) new_id svc request next =
     Some \<lparr>handled = \<lparr>attempts = 1, waits = [], outcome = Unfinished\<rparr>, service = svc\<rparr>"
  by (auto simp add: intercept_def rx_retry_def past_def Let_def)

lemma submit_unanswered:
  assumes "resumeText c \<noteq> []" and "jobDescription c \<noteq> []"
    and "reply (backend \<lparr>req_method = POST, req_url = apiUrl @ ''/ats/analyze'',
        req_headers = getHeaders,
        req_body = Some \<lparr>resume_text = resumeText c, ats_job_description = jobDescription c\<rparr>\<rparr> 0)
        = NoReply \<or>
      120000 \<le> elapsed (backend \<lparr>req_method = POST, req_url = apiUrl @ ''/ats/analyze'',
        req_headers = getHeaders,
        req_body = Some \<lparr>resume_text = resumeText c, ats_job_description = jobDescription c\<rparr>\<rparr> 0)"
  shows "submit_analysis (Suc fuel) apiUrl new_id svc backend c =
     Some \<lparr>component = c\<lparr>ats_loading := False, ats_error := ''Timeout has occurred''\<rparr>,
           backend_calls = 1, notified = svc\<rparr>"
proof -
  have "intercept (Suc fuel) (Some 120000) new_id svc
     \<lparr>req_method = POST, req_url = apiUrl @ ''/ats/analyze'', req_headers = getHeaders,
      req_body = Some \<lparr>resume_text = resumeText c, ats_job_description = jobDescription c\<rparr>\<rparr>
     backend = Some \<lparr>handled = \<lparr>attempts = 1, waits = [], outcome = Unfinished\<rparr>, service = svc\<rparr>"
    using assms(3) by (rule intercept_unanswered)
  then show ?thesis
    using assms(1,2)
    by (simp add: submit_valid ApiService_pipe_def rx_timeout_def rx_catchError_def
        handleError_def or_else_def analyzeResume_error_def)
qed

lemma submit_408:
  assumes "resumeText c \<noteq> []" and "jobDescription c \<noteq> []"
    and run: "rx_retry fuel (Some 120000) intercept_config
      (backend \<lparr>req_method = POST, req_url = apiUrl @ ''/ats/analyze'', req_headers = getHeaders,
        req_body = Some \<lparr>resume_text = resumeText c, ats_job_description = jobDescription c\<rparr>\<rparr>)
      = Some r"
    and failed: "outcome r = Failed t e" and "status e = 408" and "err_body e = ServerBody d"
  shows "submit_analysis fuel apiUrl new_id svc backend c =
     Some \<lparr>component = c\<lparr>ats_loading := False,
                            ats_error := ''Request timeout. Please try again.''\<rparr>,
           backend_calls = attempts r,
           notified = NotificationService_error new_id ''Request timeout. Please try again.'' svc\<rparr>"
    and "2 \<le> attempts r" and "waits r = replicate (attempts r - 1) 1000"
proof -
  have msg: "intercept_errorMessage e = ''Request timeout. Please try again.''"
    using assms(5,6) by (simp add: intercept_errorMessage_def getServerErrorMessage_def)
  have "t < 120000"
    using run failed unfolding rx_retry_def by (rule retry_loop_failed_in_time)
  moreover have "intercept fuel (Some 120000) new_id svc
      \<lparr>req_method = POST, req_url = apiUrl @ ''/ats/analyze'', req_headers = getHeaders,
       req_body = Some \<lparr>resume_text = resumeText c, ats_job_description = jobDescription c\<rparr>\<rparr>
      backend =
     Some \<lparr>handled = \<lparr>attempts = attempts r, waits = waits r,
             outcome = Failed t (JsError ''Request timeout. Please try again.'')\<rparr>,
           service = NotificationService_error new_id ''Request timeout. Please try again.'' svc\<rparr>"
    using run failed msg by (simp add: intercept_def intercept_catchError_def Let_def)
  ultimately show "submit_analysis fuel apiUrl new_id svc backend c =
     Some \<lparr>component = c\<lparr>ats_loading := False,
                            ats_error := ''Request timeout. Please try again.''\<rparr>,
           backend_calls = attempts r,
           notified = NotificationService_error new_id ''Request timeout. Please try again.'' svc\<rparr>"
    using assms(1,2)
    by (simp add: submit_valid ApiService_pipe_def rx_timeout_def rx_catchError_def
        handleError_def or_else_def analyzeResume_error_def)
  have "Suc (Suc 0) \<le> attempts r"
    using run failed unfolding rx_retry_def
    by (rule retry_loop_failed_retried) (simp add: intercept_config_def)
  then show "2 \<le> attempts r" by simp
  have "waits r = [] @ replicate (attempts r - Suc 0) (retry_delay intercept_config)"
    using run unfolding rx_retry_def by (rule retry_loop_waits)
  then show "waits r = replicate (attempts r - 1) 1000"
    by (simp add: intercept_config_def)
qed

lemma intercept_returns:
  "intercept (121 + fuel) (Some 120000) new_id svc request next \<noteq> None"
proof -
  have "retry_loop (Suc (120 + fuel)) (Some 120000) intercept_config (next request) 0 0 0 []
      \<noteq> None"
    by (rule retry_loop_enough_fuel) (simp_all add: intercept_config_def)
  moreover have "121 + fuel = Suc (120 + fuel)" by simp
  ultimately have "rx_retry (121 + fuel) (Some 120000) intercept_config (next request) \<noteq> None"
    unfolding rx_retry_def by metis
  then show ?thesis
    by (auto simp add: intercept_def Let_def split: option.splits fin.splits prod.splits)
qed

lemma submit_analysis_returns:
  "submit_analysis (121 + fuel) apiUrl new_id svc backend c \<noteq> None"
proof (cases "analyzeResume c")
  case (Pair c1 requests)
  show ?thesis
  proof (cases requests)
    case Nil
    then show ?thesis using Pair by (simp add: submit_analysis_def)
  next
    case (Cons request rest)
    then show ?thesis
      using Pair intercept_returns [of fuel new_id svc
          "call_request (AtsService_analyzeResume apiUrl request)" backend]
      by (auto simp add: submit_analysis_def HttpClient_request_def Let_def analysis_call)
  qed
qed

text \<open>
  Claim C4 fails as stated: when the backend never replies to \<open>POST /ats/analyze\<close>, the
  backend is subscribed to once, no notification is enqueued, and the component shows
  \<open>Timeout has occurred\<close>, which is not the message of the table for status 408.
\<close>

theorem timeout_not_retried:
  "submit_analysis 121 ''http://localhost:8000'' ''notif_1'' NotificationService_init
     (\<lambda>request k. \<lparr>announces = True, reply = NoReply, elapsed = 0\<rparr>)
     \<lparr>resumeText = ''Ten years of Java'', jobDescription = ''Engineer'', ats_loading = False,
      ats_error = [], ats_result = (None :: unit option)\<rparr> =
     Some \<lparr>component = \<lparr>resumeText = ''Ten years of Java'', jobDescription = ''Engineer'',
             ats_loading = False, ats_error = ''Timeout has occurred'', ats_result = None\<rparr>,
           backend_calls = 1, notified = NotificationService_init\<rparr> \<and>
   getServerErrorMessage \<lparr>status = 408, err_body = ServerBody None, err_text = []\<rparr> =
     ''Request timeout. Please try again.'' \<and>
   ''Timeout has occurred'' \<noteq>
     getServerErrorMessage \<lparr>status = 408, err_body = ServerBody None, err_text = []\<rparr>"
  using submit_unanswered [of
      "\<lparr>resumeText = ''Ten years of Java'', jobDescription = ''Engineer'', ats_loading = False,
        ats_error = [], ats_result = (None :: unit option)\<rparr>"
      "\<lambda>request k. \<lparr>announces = True, reply = NoReply, elapsed = 0\<rparr>"
      "''http://localhost:8000''" 120 "''notif_1''" NotificationService_init]
  by (simp add: getServerErrorMessage_def)

text \<open>
  Claim C4, amended. A \<open>POST /ats/analyze\<close> call whose first attempt brings no reply
  within the timeout of 120000 ms is not retried: the backend is subscribed to once, no
  notification is enqueued and the component shows the text of the timeout error,
  \<open>Timeout has occurred\<close>. When instead the retry stage of the interceptor gives up
  before the timeout with a response of status 408, the request has been made at least
  twice, with 1000 ms before each new attempt, one error notification is enqueued and
  the component shows \<open>Request timeout. Please try again.\<close>
\<close>

theorem timeout_surfaces_own_text:
  "(resumeText c \<noteq> [] \<and> jobDescription c \<noteq> [] \<and>
    (reply (backend \<lparr>req_method = POST, req_url = apiUrl @ ''/ats/analyze'',
        req_headers = getHeaders,
        req_body = Some \<lparr>resume_text = resumeText c, ats_job_description = jobDescription c\<rparr>\<rparr> 0)
        = NoReply \<or>
     120000 \<le> elapsed (backend \<lparr>req_method = POST, req_url = apiUrl @ ''/ats/analyze'',
        req_headers = getHeaders,
        req_body = Some \<lparr>resume_text = resumeText c, ats_job_description = jobDescription c\<rparr>\<rparr> 0))
    \<longrightarrow>
      submit_analysis (Suc fuel) apiUrl new_id svc backend c =
        Some \<lparr>component = c\<lparr>ats_loading := False, ats_error := ''Timeout has occurred''\<rparr>,
              backend_calls = 1, notified = svc\<rparr>) \<and>
   (resumeText c \<noteq> [] \<and> jobDescription c \<noteq> [] \<and>
    rx_retry fuel (Some 120000) intercept_config
      (backend \<lparr>req_method = POST, req_url = apiUrl @ ''/ats/analyze'', req_headers = getHeaders,
        req_body = Some \<lparr>resume_text = resumeText c, ats_job_description = jobDescription c\<rparr>\<rparr>)
      = Some r \<and>
    outcome r = Failed t e \<and> status e = 408 \<and> err_body e = ServerBody d
    \<longrightarrow>
      submit_analysis fuel apiUrl new_id svc backend c =
        Some \<lparr>component = c\<lparr>ats_loading := False,
                               ats_error := ''Request timeout. Please try again.''\<rparr>,
              backend_calls = attempts r,
              notified = NotificationService_error new_id
                ''Request timeout. Please try again.'' svc\<rparr> \<and>
      2 \<le> attempts r \<and> waits r = replicate (attempts r - 1) 1000)"
  using submit_unanswered [of c backend apiUrl fuel new_id svc]
    submit_408(1) [of c fuel backend apiUrl r t e d new_id svc]
    submit_408(2) [of c fuel backend apiUrl r t e d]
    submit_408(3) [of c fuel backend apiUrl r t e d]
  by blast

theorem timeout_surfaces_own_text_witness:
  "submit_analysis (Suc 0) ''http://localhost:8000'' ''notif_1'' NotificationService_init
     (\<lambda>request k. \<lparr>announces = True, reply = Responds (), elapsed = 130000\<rparr>)
     \<lparr>resumeText = ''Ten years of Java'', jobDescription = ''Engineer'', ats_loading = False,
      ats_error = [], ats_result = None\<rparr> =
     Some \<lparr>component = \<lparr>resumeText = ''Ten years of Java'', jobDescription = ''Engineer'',
             ats_loading = False, ats_error = ''Timeout has occurred'', ats_result = None\<rparr>,
           backend_calls = 1, notified = NotificationService_init\<rparr> \<and>
   rx_retry (Suc (Suc 0)) (Some 120000) intercept_config
     (\<lambda>k. \<lparr>announces = False,
           reply = Fails \<lparr>status = 408, err_body = ServerBody None,
                          err_text = ''Http failure response: 408''\<rparr>,
           elapsed = 20\<rparr> :: unit attempt) =
     Some \<lparr>attempts = 2, waits = [1000],
           outcome = Failed 1040 \<lparr>status = 408, err_body = ServerBody None,
                                   err_text = ''Http failure response: 408''\<rparr>\<rparr> \<and>
   submit_analysis (Suc (Suc 0)) ''http://localhost:8000'' ''notif_1'' NotificationService_init
     (\<lambda>request k. \<lparr>announces = False,
           reply = Fails \<lparr>status = 408, err_body = ServerBody None,
                          err_text = ''Http failure response: 408''\<rparr>,
           elapsed = 20\<rparr>)
     \<lparr>resumeText = ''Ten years of Java'', jobDescription = ''Engineer'', ats_loading = False,
      ats_error = [], ats_result = (None :: unit option)\<rparr> =
     Some \<lparr>component = \<lparr>resumeText = ''Ten years of Java'', jobDescription = ''Engineer'',
             ats_loading = False, ats_error = ''Request timeout. Please try again.'',
             ats_result = None\<rparr>,
           backend_calls = 2,
           notified = \<lparr>notifications = [\<lparr>notif_id = ''notif_1'', notif_type = Error,
               notif_message = ''Request timeout. Please try again.'', notif_duration = 7000\<rparr>],
             timers = [(7000, ''notif_1'')]\<rparr>\<rparr>"
proof -
  have run: "rx_retry (Suc (Suc 0)) (Some 120000) intercept_config
     (\<lambda>k. \<lparr>announces = False,
           reply = Fails \<lparr>status = 408, err_body = ServerBody None,
                          err_text = ''Http failure response: 408''\<rparr>,
           elapsed = 20\<rparr> :: unit attempt) =
     Some \<lparr>attempts = 2, waits = [1000],
           outcome = Failed 1040 \<lparr>status = 408, err_body = ServerBody None,
                                   err_text = ''Http failure response: 408''\<rparr>\<rparr>"
    by (simp add: rx_retry_def intercept_config_def past_def Let_def)
  show ?thesis
    using run
      timeout_surfaces_own_text [of
        "\<lparr>resumeText = ''Ten years of Java'', jobDescription = ''Engineer'', ats_loading = False,
          ats_error = [], ats_result = None\<rparr>"
        "\<lambda>request k. \<lparr>announces = True, reply = Responds (), elapsed = 130000\<rparr>"
        "''http://localhost:8000''" 0 "''notif_1''" NotificationService_init
        "\<lparr>attempts = 0, waits = [], outcome = Unfinished\<rparr>" 0
        "\<lparr>status = 408, err_body = ServerBody None, err_text = []\<rparr>" None]
      timeout_surfaces_own_text [of
        "\<lparr>resumeText = ''Ten years of Java'', jobDescription = ''Engineer'', ats_loading = False,
          ats_error = [], ats_result = (None :: unit option)\<rparr>"
        "\<lambda>request k. \<lparr>announces = False,
           reply = Fails \<lparr>status = 408, err_body = ServerBody None,
                          err_text = ''Http failure response: 408''\<rparr>,
           elapsed = 20\<rparr>"
        "''http://localhost:8000''" "Suc (Suc 0)" "''notif_1''" NotificationService_init
        "\<lparr>attempts = 2, waits = [1000],
           outcome = Failed 1040 \<lparr>status = 408, err_body = ServerBody None,
                                   err_text = ''Http failure response: 408''\<rparr>\<rparr>" 1040
        "\<lparr>status = 408, err_body = ServerBody None,
                          err_text = ''Http failure response: 408''\<rparr>" None]
    by (simp add: NotificationService_error_def NotificationService_show_def
        NotificationService_init_def)
qed

end
